theory Spec2Isabelle
  imports Complex_Main "HOL-Library.Char_ord" "HOL-Library.List_Lexorder"
begin

section \<open>Data model of the BGP speaker\<close>

subsection \<open>Constants (bgp/constants.py)\<close>

text \<open>
  Modelled from the spec: the attribute type codes, ORIGIN values and AS_PATH segment
  types of bgp/constants.py, which is not among the sources; the values are the ones the
  specification's data model gives (and RFC 4271 fixes).
\<close>

definition ATTR_ORIGIN :: nat where "ATTR_ORIGIN = 1"
definition ATTR_AS_PATH :: nat where "ATTR_AS_PATH = 2"
definition ATTR_NEXT_HOP :: nat where "ATTR_NEXT_HOP = 3"
definition ATTR_MED :: nat where "ATTR_MED = 4"
definition ATTR_LOCAL_PREF :: nat where "ATTR_LOCAL_PREF = 5"

definition ORIGIN_IGP :: nat where "ORIGIN_IGP = 0"
definition ORIGIN_EGP :: nat where "ORIGIN_EGP = 1"
definition ORIGIN_INCOMPLETE :: nat where "ORIGIN_INCOMPLETE = 2"

definition AS_SET :: nat where "AS_SET = 1"
definition AS_SEQUENCE :: nat where "AS_SEQUENCE = 2"

subsection \<open>Routes (bgp/rib.py)\<close>

text \<open>An AS_PATH segment is a pair of a segment type and a list of AS numbers.\<close>

type_synonym as_segment = "nat \<times> nat list"

text \<open>
  Modelled from the spec: the route record of bgp/rib.py, which is not among the sources.
  \<open>path_attributes\<close> is a dictionary from type code to attribute object, and each
  recognised code holds an object of its own class, so the five recognised entries are
  optional typed fields here: \<open>has_attribute(ATTR_X)\<close> is \<open>attr_x r \<noteq> None\<close> and
  \<open>get_attribute(ATTR_X).field\<close> is the value under \<open>Some\<close>. The timestamp is a
  number of seconds that the selector only compares with \<open><\<close> and \<open>>\<close>.
\<close>

record BGPRoute =
  prefix :: string
  attr_origin :: "nat option"
  attr_as_path :: "as_segment list option"
  attr_next_hop :: "string option"
  attr_med :: "nat option"
  attr_local_pref :: "nat option"
  peer_id :: string
  peer_ip :: string
  source :: string
  timestamp :: real

text \<open>Modelled from the spec: the \<open>next_hop\<close> property of a route reads its NEXT_HOP attribute.\<close>

definition next_hop :: "BGPRoute \<Rightarrow> string option" where
  "next_hop r = attr_next_hop r"

text \<open>
  Modelled from the spec: \<open>ASPathAttribute.length()\<close>; an AS_SET counts as one and each
  element of an AS_SEQUENCE counts individually.
\<close>

fun as_path_length :: "as_segment list \<Rightarrow> nat" where
  "as_path_length [] = 0"
| "as_path_length ((seg_type, as_list) # segs) =
     (if seg_type = AS_SET then 1 else length as_list) + as_path_length segs"

section \<open>Best path selection (bgp/path\_selection.py)\<close>

text \<open>
  The IGP cost callback returns an optional cost or raises; the selector catches every
  exception of the lookup.
\<close>

datatype lookup_result = LookupRaises | LookupCost "int option"

record BestPathSelector =
  local_as :: nat
  router_id :: string
  igp_cost_lookup :: "(string \<Rightarrow> lookup_result) option"

text \<open>\<open>_get_neighbor_as\<close>: the first AS of the first segment, when there is one.\<close>

definition get_neighbor_as :: "BGPRoute \<Rightarrow> nat option" where
  "get_neighbor_as route =
     (case attr_as_path route of
        None \<Rightarrow> None
      | Some segments \<Rightarrow>
          (case segments of
             [] \<Rightarrow> None
           | (seg_type, as_list) # _ \<Rightarrow>
               (case as_list of [] \<Rightarrow> None | first_as # _ \<Rightarrow> Some first_as)))"

definition compare_local_pref :: "BGPRoute \<Rightarrow> BGPRoute \<Rightarrow> int" where
  "compare_local_pref route_a route_b =
     (let local_pref_a = (case attr_local_pref route_a of Some v \<Rightarrow> v | None \<Rightarrow> 100);
          local_pref_b = (case attr_local_pref route_b of Some v \<Rightarrow> v | None \<Rightarrow> 100)
      in if local_pref_a > local_pref_b then - 1
         else if local_pref_a < local_pref_b then 1
         else 0)"

definition compare_as_path_length :: "BGPRoute \<Rightarrow> BGPRoute \<Rightarrow> int" where
  "compare_as_path_length route_a route_b =
     (let length_a = (case attr_as_path route_a of Some segs \<Rightarrow> as_path_length segs | None \<Rightarrow> 0);
          length_b = (case attr_as_path route_b of Some segs \<Rightarrow> as_path_length segs | None \<Rightarrow> 0)
      in if length_a < length_b then - 1
         else if length_a > length_b then 1
         else 0)"

definition compare_origin :: "BGPRoute \<Rightarrow> BGPRoute \<Rightarrow> int" where
  "compare_origin route_a route_b =
     (let origin_a = (case attr_origin route_a of Some v \<Rightarrow> v | None \<Rightarrow> ORIGIN_INCOMPLETE);
          origin_b = (case attr_origin route_b of Some v \<Rightarrow> v | None \<Rightarrow> ORIGIN_INCOMPLETE)
      in if origin_a < origin_b then - 1
         else if origin_a > origin_b then 1
         else 0)"

definition compare_med :: "BGPRoute \<Rightarrow> BGPRoute \<Rightarrow> int" where
  "compare_med route_a route_b =
     (let neighbor_as_a = get_neighbor_as route_a;
          neighbor_as_b = get_neighbor_as route_b
      in if neighbor_as_a \<noteq> neighbor_as_b then 0
         else
           (let med_a = (case attr_med route_a of Some v \<Rightarrow> v | None \<Rightarrow> 0);
                med_b = (case attr_med route_b of Some v \<Rightarrow> v | None \<Rightarrow> 0)
            in if med_a < med_b then - 1
               else if med_a > med_b then 1
               else 0))"

definition compare_ebgp_ibgp :: "BestPathSelector \<Rightarrow> BGPRoute \<Rightarrow> BGPRoute \<Rightarrow> int" where
  "compare_ebgp_ibgp sel route_a route_b =
     (let is_ebgp_a = (get_neighbor_as route_a \<noteq> Some (local_as sel));
          is_ebgp_b = (get_neighbor_as route_b \<noteq> Some (local_as sel))
      in if is_ebgp_a \<and> \<not> is_ebgp_b then - 1
         else if \<not> is_ebgp_a \<and> is_ebgp_b then 1
         else 0)"

text \<open>Python's \<open>not s\<close> for an optional string: true of \<open>None\<close> and of the empty string.\<close>

definition py_not_str :: "string option \<Rightarrow> bool" where
  "py_not_str s = (case s of None \<Rightarrow> True | Some v \<Rightarrow> v = [])"

definition compare_igp_metric :: "BestPathSelector \<Rightarrow> BGPRoute \<Rightarrow> BGPRoute \<Rightarrow> int" where
  "compare_igp_metric sel route_a route_b =
     (case igp_cost_lookup sel of
        None \<Rightarrow> 0
      | Some lookup \<Rightarrow>
          if py_not_str (next_hop route_a) \<or> py_not_str (next_hop route_b) then 0
          else
            (case lookup (the (next_hop route_a)) of
               LookupRaises \<Rightarrow> 0
             | LookupCost cost_a \<Rightarrow>
                 (case lookup (the (next_hop route_b)) of
                    LookupRaises \<Rightarrow> 0
                  | LookupCost cost_b \<Rightarrow>
                      (case (cost_a, cost_b) of
                         (None, None) \<Rightarrow> 0
                       | (None, Some _) \<Rightarrow> 1
                       | (Some _, None) \<Rightarrow> - 1
                       | (Some ca, Some cb) \<Rightarrow>
                           if ca < cb then - 1 else if ca > cb then 1 else 0))))"

definition compare_age :: "BGPRoute \<Rightarrow> BGPRoute \<Rightarrow> int" where
  "compare_age route_a route_b =
     (if timestamp route_a < timestamp route_b then - 1
      else if timestamp route_a > timestamp route_b then 1
      else 0)"

text \<open>
  Steps 8 and 9 convert both strings with \<open>int(ip_address(s))\<close> of Python's standard
  library, here the parameter \<open>ip_int\<close> (\<open>None\<close> where the library raises ValueError);
  when either conversion fails the strings themselves are compared.
\<close>

definition compare_addr :: "(string \<Rightarrow> nat option) \<Rightarrow> string \<Rightarrow> string \<Rightarrow> int" where
  "compare_addr ip_int sa sb =
     (case (ip_int sa, ip_int sb) of
        (Some id_a, Some id_b) \<Rightarrow>
          if id_a < id_b then - 1 else if id_a > id_b then 1 else 0
      | _ \<Rightarrow>
          if sa < sb then - 1 else if sa > sb then 1 else 0)"

definition compare_router_id :: "(string \<Rightarrow> nat option) \<Rightarrow> BGPRoute \<Rightarrow> BGPRoute \<Rightarrow> int" where
  "compare_router_id ip_int route_a route_b = compare_addr ip_int (peer_id route_a) (peer_id route_b)"

definition compare_peer_ip :: "(string \<Rightarrow> nat option) \<Rightarrow> BGPRoute \<Rightarrow> BGPRoute \<Rightarrow> int" where
  "compare_peer_ip ip_int route_a route_b = compare_addr ip_int (peer_ip route_a) (peer_ip route_b)"

text \<open>\<open>compare\<close>: the nine steps in order, the first non-zero result returned.\<close>

definition compare :: "(string \<Rightarrow> nat option) \<Rightarrow> BestPathSelector \<Rightarrow> BGPRoute \<Rightarrow> BGPRoute \<Rightarrow> int" where
  "compare ip_int sel route_a route_b =
     (if compare_local_pref route_a route_b \<noteq> 0 then compare_local_pref route_a route_b
      else if compare_as_path_length route_a route_b \<noteq> 0 then compare_as_path_length route_a route_b
      else if compare_origin route_a route_b \<noteq> 0 then compare_origin route_a route_b
      else if compare_med route_a route_b \<noteq> 0 then compare_med route_a route_b
      else if compare_ebgp_ibgp sel route_a route_b \<noteq> 0 then compare_ebgp_ibgp sel route_a route_b
      else if compare_igp_metric sel route_a route_b \<noteq> 0 then compare_igp_metric sel route_a route_b
      else if compare_age route_a route_b \<noteq> 0 then compare_age route_a route_b
      else if compare_router_id ip_int route_a route_b \<noteq> 0 then compare_router_id ip_int route_a route_b
      else if compare_peer_ip ip_int route_a route_b \<noteq> 0 then compare_peer_ip ip_int route_a route_b
      else 0)"

text \<open>The loop of \<open>select_best\<close>: the incumbent is replaced when the candidate is strictly better.\<close>

fun scan_best :: "(string \<Rightarrow> nat option) \<Rightarrow> BestPathSelector \<Rightarrow> BGPRoute \<Rightarrow> BGPRoute list \<Rightarrow> BGPRoute" where
  "scan_best ip_int sel best [] = best"
| "scan_best ip_int sel best (candidate # rest) =
     (if compare ip_int sel best candidate > 0 then scan_best ip_int sel candidate rest
      else scan_best ip_int sel best rest)"

definition select_best :: "(string \<Rightarrow> nat option) \<Rightarrow> BestPathSelector \<Rightarrow> BGPRoute list \<Rightarrow> BGPRoute option" where
  "select_best ip_int sel routes =
     (case routes of
        [] \<Rightarrow> None
      | [r] \<Rightarrow> Some r
      | r # rest \<Rightarrow> Some (scan_best ip_int sel r rest))"

section \<open>Path attributes, sessions and the agent (bgp/agent.py)\<close>

subsection \<open>Attribute objects\<close>

text \<open>
  Modelled from the spec: the attribute classes of bgp/attributes.py, which is not among
  the sources. Each recognised attribute is a variant carrying its value; any other
  attribute keeps its type code and its opaque value. \<open>type_code\<close> is the field the agent
  dispatches on.
\<close>

datatype PathAttribute =
    OriginAttribute nat
  | ASPathAttribute "as_segment list"
  | NextHopAttribute string
  | MEDAttribute nat
  | LocalPrefAttribute nat
  | UnknownAttribute nat "nat list"

fun type_code :: "PathAttribute \<Rightarrow> nat" where
  "type_code (OriginAttribute _) = ATTR_ORIGIN"
| "type_code (ASPathAttribute _) = ATTR_AS_PATH"
| "type_code (NextHopAttribute _) = ATTR_NEXT_HOP"
| "type_code (MEDAttribute _) = ATTR_MED"
| "type_code (LocalPrefAttribute _) = ATTR_LOCAL_PREF"
| "type_code (UnknownAttribute code _) = code"

datatype error = AttributeError

text \<open>Reading \<open>attr.segments\<close> raises AttributeError on an object that is no AS_PATH.\<close>

fun segments :: "PathAttribute \<Rightarrow> error + as_segment list" where
  "segments (ASPathAttribute segs) = Inr segs"
| "segments _ = Inl AttributeError"

text \<open>
  Modelled from the spec: \<open>ASPathAttribute.prepend\<close>, which puts an AS number in front
  of the path: at the head of a leading AS_SEQUENCE, and as a new AS_SEQUENCE segment
  in front of anything else.
\<close>

fun prepend :: "nat \<Rightarrow> as_segment list \<Rightarrow> as_segment list" where
  "prepend asn [] = [(AS_SEQUENCE, [asn])]"
| "prepend asn ((seg_type, as_list) # segs) =
     (if seg_type = AS_SEQUENCE then (seg_type, asn # as_list) # segs
      else (AS_SEQUENCE, [asn]) # (seg_type, as_list) # segs)"

text \<open>The leftmost AS number of a path, over all its segments.\<close>

fun leftmost_as :: "as_segment list \<Rightarrow> nat option" where
  "leftmost_as [] = None"
| "leftmost_as ((seg_type, []) # segs) = leftmost_as segs"
| "leftmost_as ((seg_type, asn # _) # segs) = Some asn"

text \<open>
  The first AS in AS_PATH in the words of the specification: the leftmost AS number of the
  path, absent when the route has no AS_PATH or its path holds no AS number.
\<close>

definition first_as_in_path :: "BGPRoute \<Rightarrow> nat option" where
  "first_as_in_path route =
     (case attr_as_path route of None \<Rightarrow> None | Some segs \<Rightarrow> leftmost_as segs)"

subsection \<open>Sessions\<close>

text \<open>Modelled from the spec: the six FSM states of bgp/constants.py.\<close>

datatype fsm_state =
  STATE_IDLE | STATE_CONNECT | STATE_ACTIVE | STATE_OPENSENT | STATE_OPENCONFIRM | STATE_ESTABLISHED

text \<open>
  Modelled from the spec: the peer configuration, the OPEN message and the session object
  of bgp/session.py and bgp/messages.py, which are not among the sources; only the fields
  the agent reads or writes. A TCP connection (a reader/writer pair) is an identifier.
\<close>

record BGPSessionConfig =
  config_peer_ip :: string
  peer_as :: nat
  local_ip :: string
  is_passive :: bool
  accept_any_source :: bool
  peer_router_id :: "string option"
  route_reflector_client :: bool

record BGPOpen =
  my_as :: nat
  hold_time :: nat
  bgp_identifier :: string

type_synonym conn = nat

datatype task_state = TaskRunning | TaskFinished | TaskCancelled

record BGPSession =
  config :: BGPSessionConfig
  fsm_state :: fsm_state
  session_peer_id :: string
  pending_open :: "BGPOpen option"
  message_reader_task :: "task_state option"
  reader :: "conn option"
  writer :: "conn option"
  adj_rib_in :: "(string \<times> BGPRoute) list"

definition is_established :: "BGPSession \<Rightarrow> bool" where
  "is_established session = (fsm_state session = STATE_ESTABLISHED)"

subsection \<open>The agent\<close>

text \<open>
  The two dictionaries \<open>sessions\<close> and \<open>mesh_sessions\<close> hold references to shared session
  objects: a reference is a number and \<open>heap\<close> gives the object behind it. The import
  policy of the policy engine and the \<open>should_reflect\<close> hook of an optional route
  reflector are parameters; the optional kernel route manager is the list of the
  (prefix, next hop) pairs it was asked to install.
\<close>

type_synonym ref = nat

record BGPAgent =
  agent_local_as :: nat
  agent_router_id :: string
  sessions :: "(string \<times> ref) list"
  mesh_sessions :: "(nat \<times> ref) list"
  heap :: "ref \<Rightarrow> BGPSession"
  loc_rib :: "(string \<times> BGPRoute) list"
  best_path_selector :: BestPathSelector
  apply_import_policy :: "BGPRoute \<Rightarrow> string \<Rightarrow> BGPRoute option"
  route_reflector :: "(BGPRoute \<Rightarrow> string \<Rightarrow> string \<Rightarrow> bool \<Rightarrow> bool) option"
  kernel_route_manager :: "(string \<times> string) list option"

subsection \<open>\<open>_prepare_attributes_for_advertisement\<close>\<close>

record prepare_state =
  modified :: "PathAttribute list"
  has_origin :: bool
  has_as_path :: bool
  has_next_hop :: bool

text \<open>The loop over the input attributes, one branch per type code as in the source.\<close>

fun prepare_loop :: "nat \<Rightarrow> BGPSessionConfig \<Rightarrow> PathAttribute list \<Rightarrow> prepare_state
    \<Rightarrow> error + prepare_state" where
  "prepare_loop las cfg [] st = Inr st"
| "prepare_loop las cfg (attr # rest) st =
     (if type_code attr = ATTR_ORIGIN then
        prepare_loop las cfg rest (st\<lparr>modified := modified st @ [attr], has_origin := True\<rparr>)
      else if type_code attr = ATTR_NEXT_HOP then
        prepare_loop las cfg rest
          (st\<lparr>modified := modified st @ [NextHopAttribute (local_ip cfg)], has_next_hop := True\<rparr>)
      else if type_code attr = ATTR_AS_PATH then
        (case segments attr of
           Inl e \<Rightarrow> Inl e
         | Inr segments_copy \<Rightarrow>
             prepare_loop las cfg rest
               (st\<lparr>modified := modified st @
                      [ASPathAttribute (if peer_as cfg \<noteq> las then prepend las segments_copy
                                        else segments_copy)],
                    has_as_path := True\<rparr>))
      else if type_code attr = ATTR_LOCAL_PREF then
        (if peer_as cfg = las then prepare_loop las cfg rest (st\<lparr>modified := modified st @ [attr]\<rparr>)
         else prepare_loop las cfg rest st)
      else prepare_loop las cfg rest (st\<lparr>modified := modified st @ [attr]\<rparr>))"

text \<open>Python's \<open>list.insert(i, x)\<close> for \<open>i \<ge> 0\<close>; past the end it appends.\<close>

definition list_insert :: "nat \<Rightarrow> 'a \<Rightarrow> 'a list \<Rightarrow> 'a list" where
  "list_insert i x xs = take i xs @ x # drop i xs"

text \<open>
  After the loop, the four blocks that add a missing ORIGIN, AS_PATH and NEXT_HOP and, for
  an iBGP session, a missing LOCAL_PREF, in the order of the source.
\<close>

definition insert_origin :: "prepare_state \<Rightarrow> PathAttribute list" where
  "insert_origin st =
     (if \<not> has_origin st then list_insert 0 (OriginAttribute ORIGIN_IGP) (modified st)
      else modified st)"

definition insert_as_path ::
    "nat \<Rightarrow> BGPSessionConfig \<Rightarrow> prepare_state \<Rightarrow> PathAttribute list \<Rightarrow> PathAttribute list" where
  "insert_as_path las cfg st m =
     (if \<not> has_as_path st then
        list_insert (if has_origin st then 1 else 0)
          (ASPathAttribute (if peer_as cfg \<noteq> las then prepend las [] else [])) m
      else m)"

definition insert_next_hop ::
    "BGPSessionConfig \<Rightarrow> prepare_state \<Rightarrow> PathAttribute list \<Rightarrow> PathAttribute list" where
  "insert_next_hop cfg st m =
     (if \<not> has_next_hop st then
        list_insert ((if has_origin st then 1 else 0) + (if has_as_path st then 1 else 0))
          (NextHopAttribute (local_ip cfg)) m
      else m)"

definition add_local_pref :: "nat \<Rightarrow> BGPSessionConfig \<Rightarrow> PathAttribute list \<Rightarrow> PathAttribute list" where
  "add_local_pref las cfg m =
     (if peer_as cfg = las then
        (if list_ex (\<lambda>attr. type_code attr = ATTR_LOCAL_PREF) m then m
         else m @ [LocalPrefAttribute 100])
      else m)"

definition ensure_mandatory :: "nat \<Rightarrow> BGPSessionConfig \<Rightarrow> prepare_state \<Rightarrow> PathAttribute list" where
  "ensure_mandatory las cfg st =
     add_local_pref las cfg (insert_next_hop cfg st (insert_as_path las cfg st (insert_origin st)))"

definition prepare_attributes_for_advertisement ::
    "BGPAgent \<Rightarrow> PathAttribute list \<Rightarrow> BGPSession \<Rightarrow> error + PathAttribute list" where
  "prepare_attributes_for_advertisement agent attributes session =
     (case prepare_loop (agent_local_as agent) (config session) attributes
             \<lparr>modified = [], has_origin = False, has_as_path = False, has_next_hop = False\<rparr> of
        Inl e \<Rightarrow> Inl e
      | Inr st \<Rightarrow> Inr (ensure_mandatory (agent_local_as agent) (config session) st))"

subsection \<open>\<open>_read_open_message\<close>\<close>

text \<open>
  Modelled from the spec: the header size and the type code of OPEN, of bgp/constants.py.
\<close>

definition BGP_HEADER_SIZE :: nat where "BGP_HEADER_SIZE = 19"
definition MSG_OPEN :: nat where "MSG_OPEN = 1"

text \<open>
  The data of an incoming connection is the list of its bytes in order, each with the
  time at which it arrives, in seconds after the handler starts reading; what is not in
  the list never arrives. \<open>arrival_time start chunk\<close> is the moment at which a read that
  starts at \<open>start\<close> has all the bytes of \<open>chunk\<close>.
\<close>

type_synonym stream = "(real \<times> nat) list"

definition arrival_time :: "real \<Rightarrow> (real \<times> nat) list \<Rightarrow> real" where
  "arrival_time start chunk = fold max (map fst chunk) start"

text \<open>
  \<open>wait_for(reader.readexactly(n), timeout)\<close>, started at the moment \<open>start\<close> with
  \<open>offset\<close> bytes already consumed: the next \<open>n\<close> bytes and the moment the read returns,
  when they all arrive no later than \<open>timeout\<close> seconds after \<open>start\<close>; it fails
  (TimeoutError or IncompleteReadError, both caught by the caller) otherwise. Every call
  has a timeout of its own, counted from its own start.
\<close>

definition readexactly :: "stream \<Rightarrow> real \<Rightarrow> nat \<Rightarrow> nat \<Rightarrow> real \<Rightarrow> (nat list \<times> real) option" where
  "readexactly arrivals start offset n timeout =
     (let chunk = take n (drop offset arrivals)
      in if length chunk < n then None
         else if arrival_time start chunk - start \<le> timeout
           then Some (map snd chunk, arrival_time start chunk)
         else None)"

text \<open>
  \<open>BGPOpen.decode\<close> of bgp/messages.py is the parameter \<open>decode\<close>; \<open>None\<close> stands for
  its returning nothing and for its raising, which the caller turns into \<open>None\<close>. The
  header is read first, from the moment 0; the body is read by a second call that starts
  when the first has returned.
\<close>

definition read_open_message :: "(nat list \<Rightarrow> BGPOpen option) \<Rightarrow> stream \<Rightarrow> real \<Rightarrow> BGPOpen option" where
  "read_open_message decode arrivals timeout =
     (case readexactly arrivals 0 0 BGP_HEADER_SIZE timeout of
        None \<Rightarrow> None
      | Some (header, header_read) \<Rightarrow>
          (let marker = take 16 header;
               length_field = header ! 16 * 256 + header ! 17;
               msg_type = header ! 18
           in if marker \<noteq> replicate 16 255 then None
              else if msg_type \<noteq> MSG_OPEN then None
              else if length_field > BGP_HEADER_SIZE then
                (case readexactly arrivals header_read BGP_HEADER_SIZE
                        (length_field - BGP_HEADER_SIZE) timeout of
                   None \<Rightarrow> None
                 | Some (body, body_read) \<Rightarrow> decode (header @ body))
              else decode header))"

text \<open>The length field of the header at the head of a stream.\<close>

definition header_length_field :: "stream \<Rightarrow> nat" where
  "header_length_field arrivals = snd (arrivals ! 16) * 256 + snd (arrivals ! 17)"

subsection \<open>\<open>_handle_incoming_connection\<close>\<close>

text \<open>
  What the handler does to connections and tasks is a list of events, in order:
  reading one OPEN with a timeout, closing a connection's writer, cancelling the message
  reader task of a session, and handing the incoming connection to
  \<open>session.accept_connection\<close> with its \<open>is_collision\<close> flag.
\<close>

datatype event =
    ReadOpenMessage real
  | CloseWriter conn
  | CancelTask ref
  | AcceptConnection ref conn bool

text \<open>\<open>session.config.peer_router_id or peer_ip\<close>.\<close>

definition peer_router_id_or :: "BGPSessionConfig \<Rightarrow> string \<Rightarrow> string" where
  "peer_router_id_or cfg addr =
     (if py_not_str (peer_router_id cfg) then addr else the (peer_router_id cfg))"

text \<open>
  The collision branch for OpenSent and OpenConfirm. \<open>inet_aton\<close> is
  \<open>struct.unpack("!I", socket.inet_aton(s))[0]\<close> of the standard library, \<open>None\<close> where
  it raises; the handler's outer \<open>except\<close> then closes the incoming connection.
\<close>

definition resolve_collision ::
    "(string \<Rightarrow> nat option) \<Rightarrow> BGPAgent \<Rightarrow> string \<Rightarrow> conn \<Rightarrow> ref \<Rightarrow> BGPAgent \<times> event list" where
  "resolve_collision inet_aton agent addr incoming r =
     (let session = heap agent r
      in case inet_aton (agent_router_id agent) of
           None \<Rightarrow> (agent, [CloseWriter incoming])
         | Some our_id \<Rightarrow>
             (case inet_aton (peer_router_id_or (config session) addr) of
                None \<Rightarrow> (agent, [CloseWriter incoming])
              | Some their_id \<Rightarrow>
                  if our_id > their_id then (agent, [CloseWriter incoming])
                  else
                    (let running = (message_reader_task session = Some TaskRunning);
                         session' = session
                           \<lparr>message_reader_task :=
                              (if running then Some TaskCancelled else message_reader_task session),
                            reader := None, writer := None\<rparr>
                     in (agent\<lparr>heap := (heap agent)(r := session')\<rparr>,
                         (if running then [CancelTask r] else []) @
                         (case writer session of None \<Rightarrow> [] | Some w \<Rightarrow> [CloseWriter w]) @
                         [AcceptConnection r incoming True]))))"

text \<open>The part of the handler after a session has been found.\<close>

definition dispatch_to_session ::
    "(string \<Rightarrow> nat option) \<Rightarrow> BGPAgent \<Rightarrow> string \<Rightarrow> conn \<Rightarrow> ref \<Rightarrow> bool \<Rightarrow> BGPAgent \<times> event list" where
  "dispatch_to_session inet_aton agent addr incoming r mesh_identified =
     (let session = heap agent r
      in if \<not> is_passive (config session) \<and> \<not> mesh_identified then
           (if fsm_state session = STATE_ESTABLISHED then (agent, [CloseWriter incoming])
            else if fsm_state session = STATE_OPENSENT \<or> fsm_state session = STATE_OPENCONFIRM then
              resolve_collision inet_aton agent addr incoming r
            else (agent, [AcceptConnection r incoming True]))
         else if mesh_identified \<and> fsm_state session = STATE_ESTABLISHED then
           (agent\<lparr>heap := (heap agent)(r := session\<lparr>pending_open := None\<rparr>)\<rparr>,
            [CloseWriter incoming])
         else
           (agent, [AcceptConnection r incoming (\<not> is_passive (config session) \<and> \<not> mesh_identified)]))"

text \<open>The whole handler; 30 seconds is the default timeout of \<open>_read_open_message\<close>.\<close>

definition handle_incoming_connection ::
    "(string \<Rightarrow> nat option) \<Rightarrow> (nat list \<Rightarrow> BGPOpen option) \<Rightarrow> BGPAgent \<Rightarrow> string \<Rightarrow> conn
      \<Rightarrow> stream \<Rightarrow> BGPAgent \<times> event list" where
  "handle_incoming_connection inet_aton decode agent addr incoming arrivals =
     (case map_of (sessions agent) addr of
        Some r \<Rightarrow> dispatch_to_session inet_aton agent addr incoming r False
      | None \<Rightarrow>
          if mesh_sessions agent \<noteq> [] then
            (case read_open_message decode arrivals 30 of
               None \<Rightarrow> (agent, [ReadOpenMessage 30, CloseWriter incoming])
             | Some open_msg \<Rightarrow>
                 (case map_of (mesh_sessions agent) (my_as open_msg) of
                    None \<Rightarrow> (agent, [ReadOpenMessage 30, CloseWriter incoming])
                  | Some r \<Rightarrow>
                      (let (agent', events) =
                             dispatch_to_session inet_aton
                               (agent\<lparr>heap := (heap agent)
                                  (r := (heap agent r)\<lparr>pending_open := Some open_msg\<rparr>)\<rparr>)
                               addr incoming r True
                       in (agent', ReadOpenMessage 30 # events))))
          else (agent, [CloseWriter incoming]))"

subsection \<open>\<open>_should_advertise_to_peer\<close>\<close>

definition get_route_peer_as :: "BGPRoute \<Rightarrow> nat option" where
  "get_route_peer_as route =
     (case attr_as_path route of
        None \<Rightarrow> None
      | Some segs \<Rightarrow>
          (case segs of
             [] \<Rightarrow> None
           | (seg_type, as_list) # _ \<Rightarrow>
               (case as_list of [] \<Rightarrow> None | first_as # _ \<Rightarrow> Some first_as)))"

definition should_advertise_to_peer :: "BGPAgent \<Rightarrow> BGPRoute \<Rightarrow> BGPSession \<Rightarrow> bool" where
  "should_advertise_to_peer agent route session =
     (if source route = ''local'' then True
      else if peer_id route = session_peer_id session then False
      else
        (case route_reflector agent of
           Some should_reflect \<Rightarrow>
             should_reflect route (peer_id route) (session_peer_id session)
               (peer_ip route \<noteq> agent_router_id agent)
         | None \<Rightarrow>
             (let is_route_ibgp = (get_route_peer_as route = Some (agent_local_as agent));
                  is_session_ibgp = (peer_as (config session) = agent_local_as agent)
              in if is_route_ibgp \<and> is_session_ibgp then False else True)))"

subsection \<open>The RIBs and \<open>_run_decision_process\<close>\<close>

text \<open>
  Modelled from the spec: the Adj-RIB-In and Loc-RIB classes of bgp/rib.py, which is not
  among the sources. Both are mappings from prefix to route, kept as association lists in
  insertion order; assigning to a key that is present keeps its place.
\<close>

fun alist_update :: "'k \<Rightarrow> 'v \<Rightarrow> ('k \<times> 'v) list \<Rightarrow> ('k \<times> 'v) list" where
  "alist_update k v [] = [(k, v)]"
| "alist_update k v ((k', v') # kvs) =
     (if k = k' then (k, v) # kvs else (k', v') # alist_update k v kvs)"

definition alist_delete :: "'k \<Rightarrow> ('k \<times> 'v) list \<Rightarrow> ('k \<times> 'v) list" where
  "alist_delete k kvs = filter (\<lambda>kv. fst kv \<noteq> k) kvs"

definition adj_rib_in_get_prefixes :: "(string \<times> BGPRoute) list \<Rightarrow> string list" where
  "adj_rib_in_get_prefixes table = map fst table"

definition adj_rib_in_get_routes :: "(string \<times> BGPRoute) list \<Rightarrow> string \<Rightarrow> BGPRoute list" where
  "adj_rib_in_get_routes table pfx = (case map_of table pfx of None \<Rightarrow> [] | Some route \<Rightarrow> [route])"

definition loc_rib_lookup :: "(string \<times> BGPRoute) list \<Rightarrow> string \<Rightarrow> BGPRoute option" where
  "loc_rib_lookup table pfx = map_of table pfx"

definition loc_rib_install_route :: "BGPRoute \<Rightarrow> (string \<times> BGPRoute) list \<Rightarrow> (string \<times> BGPRoute) list" where
  "loc_rib_install_route route table = alist_update (prefix route) route table"

definition loc_rib_remove_route :: "string \<Rightarrow> (string \<times> BGPRoute) list \<Rightarrow> (string \<times> BGPRoute) list" where
  "loc_rib_remove_route pfx table = alist_delete pfx table"

definition loc_rib_get_all_routes :: "(string \<times> BGPRoute) list \<Rightarrow> BGPRoute list" where
  "loc_rib_get_all_routes table = map snd table"

text \<open>\<open>self.sessions.values()\<close>.\<close>

definition session_values :: "BGPAgent \<Rightarrow> BGPSession list" where
  "session_values agent = map (\<lambda>kv. heap agent (snd kv)) (sessions agent)"

text \<open>
  The prefixes of all established sessions. The source collects them in a set; the order
  in which it then visits them is the order of this list.
\<close>

definition all_prefixes :: "BGPAgent \<Rightarrow> string list" where
  "all_prefixes agent =
     remdups (concat (map (\<lambda>session.
        if is_established session then adj_rib_in_get_prefixes (adj_rib_in session) else [])
        (session_values agent)))"

text \<open>The candidates of one prefix: the routes of every established session, after import policy.\<close>

definition collect_candidates :: "BGPAgent \<Rightarrow> string \<Rightarrow> BGPRoute list" where
  "collect_candidates agent pfx =
     concat (map (\<lambda>session.
        if \<not> is_established session then []
        else List.map_filter (\<lambda>route. apply_import_policy agent route (session_peer_id session))
               (adj_rib_in_get_routes (adj_rib_in session) pfx))
        (session_values agent))"

definition kernel_install :: "BGPAgent \<Rightarrow> string \<Rightarrow> BGPRoute \<Rightarrow> BGPAgent" where
  "kernel_install agent pfx best_route =
     (case kernel_route_manager agent of
        None \<Rightarrow> agent
      | Some installed \<Rightarrow>
          if py_not_str (next_hop best_route) then agent
          else agent\<lparr>kernel_route_manager := Some (installed @ [(pfx, the (next_hop best_route))])\<rparr>)"

text \<open>The body of the loop over the prefixes; the second component is \<open>changed_prefixes\<close>.\<close>

definition decide_prefix ::
    "(string \<Rightarrow> nat option) \<Rightarrow> string \<Rightarrow> BGPAgent \<times> string list \<Rightarrow> BGPAgent \<times> string list" where
  "decide_prefix ip_int pfx st =
     (let agent = fst st; changed_prefixes = snd st;
          candidates = collect_candidates agent pfx
      in if candidates = [] then
           (if loc_rib_lookup (loc_rib agent) pfx \<noteq> None then
              (agent\<lparr>loc_rib := loc_rib_remove_route pfx (loc_rib agent)\<rparr>, changed_prefixes @ [pfx])
            else (agent, changed_prefixes))
         else
           (case select_best ip_int (best_path_selector agent) candidates of
              None \<Rightarrow> (agent, changed_prefixes)
            | Some best_route \<Rightarrow>
                (case loc_rib_lookup (loc_rib agent) pfx of
                   None \<Rightarrow>
                     (kernel_install
                        (agent\<lparr>loc_rib := loc_rib_install_route best_route (loc_rib agent)\<rparr>)
                        pfx best_route,
                      changed_prefixes @ [pfx])
                 | Some current_best \<Rightarrow>
                     if peer_id current_best \<noteq> peer_id best_route then
                       (kernel_install
                          (agent\<lparr>loc_rib := loc_rib_install_route best_route (loc_rib agent)\<rparr>)
                          pfx best_route,
                        changed_prefixes @ [pfx])
                     else (agent, changed_prefixes))))"

definition run_decision_process :: "(string \<Rightarrow> nat option) \<Rightarrow> BGPAgent \<Rightarrow> BGPAgent \<times> string list" where
  "run_decision_process ip_int agent =
     (if all_prefixes agent = [] then (agent, [])
      else fold (decide_prefix ip_int) (all_prefixes agent) (agent, []))"

section \<open>The connector (connectors/bgp\_connector.py)\<close>

text \<open>\<open>str.split(sep)\<close> for a separator of one character.\<close>

fun split_on :: "char \<Rightarrow> string \<Rightarrow> string list" where
  "split_on sep [] = [[]]"
| "split_on sep (c # cs) =
     (if c = sep then [] # split_on sep cs
      else (case split_on sep cs of [] \<Rightarrow> [[c]] | part # parts \<Rightarrow> (c # part) # parts))"

text \<open>
  Modelled from the spec: the speaker object of bgp/speaker.py, which is not among the
  sources: it owns the agent, and the connector adds the attribute \<open>rib\<close> to it on first
  use (\<open>None\<close> while \<open>hasattr(speaker, "rib")\<close> is false).
\<close>

datatype py_value = PyInt int | PyStr string

record route_info =
  ri_next_hop :: string
  ri_as_path :: "nat list"
  ri_local_pref :: py_value
  ri_med :: py_value
  ri_origin :: py_value

type_synonym route_key = "string \<times> int \<times> nat \<times> nat"

record BGPSpeaker =
  speaker_agent :: BGPAgent
  speaker_local_as :: nat
  rib :: "(route_key \<times> route_info) list option"

datatype call_result =
    Raised
  | Failure string
  | InjectSuccess string route_info
  | WithdrawSuccess string

definition dict_get :: "(string \<times> py_value) list \<Rightarrow> string \<Rightarrow> py_value \<Rightarrow> py_value" where
  "dict_get d k dflt = (case map_of d k of None \<Rightarrow> dflt | Some v \<Rightarrow> v)"

text \<open>
  \<open>inject_route\<close>. The parameters \<open>py_int\<close> and \<open>ip_version\<close> are \<open>int(s)\<close> and
  \<open>ipaddress.ip_address(s).version\<close> of the standard library, \<open>None\<close> where they raise;
  the ValueError of \<open>int\<close> is not caught and leaves the call.
\<close>

definition inject_route ::
    "(string \<Rightarrow> int option) \<Rightarrow> (string \<Rightarrow> nat option) \<Rightarrow> BGPSpeaker \<Rightarrow> string \<Rightarrow> string option
      \<Rightarrow> nat list option \<Rightarrow> (string \<times> py_value) list \<Rightarrow> call_result \<times> BGPSpeaker" where
  "inject_route py_int ip_version speaker network next_hop_arg as_path attributes =
     (case split_on CHR ''/'' network of
        [pfx, len_str] \<Rightarrow>
          (case py_int len_str of
             None \<Rightarrow> (Raised, speaker)
           | Some prefix_len \<Rightarrow>
               (case ip_version pfx of
                  None \<Rightarrow> (Failure ''Invalid IP address'', speaker)
                | Some version \<Rightarrow>
                    (let afi = (if version = 4 then 1 else 2);
                         route_key = (pfx, prefix_len, afi, 1);
                         info = \<lparr>ri_next_hop =
                                   (if py_not_str next_hop_arg then ''0.0.0.0'' else the next_hop_arg),
                                 ri_as_path =
                                   (case as_path of None \<Rightarrow> [speaker_local_as speaker]
                                    | Some p \<Rightarrow> if p = [] then [speaker_local_as speaker] else p),
                                 ri_local_pref = dict_get attributes ''local_pref'' (PyInt 100),
                                 ri_med = dict_get attributes ''med'' (PyInt 0),
                                 ri_origin = dict_get attributes ''origin'' (PyStr ''igp'')\<rparr>;
                         table = (case rib speaker of None \<Rightarrow> [] | Some t \<Rightarrow> t)
                     in (InjectSuccess network info,
                         speaker\<lparr>rib := Some (alist_update route_key info table)\<rparr>))))
      | _ \<Rightarrow> (Failure ''Invalid network format'', speaker))"

definition withdraw_route ::
    "(string \<Rightarrow> int option) \<Rightarrow> BGPSpeaker \<Rightarrow> string \<Rightarrow> call_result \<times> BGPSpeaker" where
  "withdraw_route py_int speaker network =
     (case split_on CHR ''/'' network of
        [pfx, len_str] \<Rightarrow>
          (case py_int len_str of
             None \<Rightarrow> (Raised, speaker)
           | Some prefix_len \<Rightarrow>
               (case rib speaker of
                  None \<Rightarrow> (Failure ''Route not found'', speaker)
                | Some table \<Rightarrow>
                    (case find (\<lambda>kv. fst (fst kv) = pfx \<and> fst (snd (fst kv)) = prefix_len) table of
                       None \<Rightarrow> (Failure ''Route not found'', speaker)
                     | Some kv \<Rightarrow>
                         (WithdrawSuccess network,
                          speaker\<lparr>rib := Some (alist_delete (fst kv) table)\<rparr>))))
      | _ \<Rightarrow> (Failure ''Invalid network format'', speaker))"

text \<open>
  Modelled from the spec: the property \<open>as_sequence\<close> of an AS_PATH attribute
  (bgp/attributes.py), the AS numbers of the path in order.
\<close>

definition as_sequence :: "as_segment list \<Rightarrow> nat list" where
  "as_sequence segs = concat (map snd segs)"

text \<open>\<open>str\<close> of a natural number: its decimal numeral.\<close>

fun str_nat :: "nat \<Rightarrow> string" where
  "str_nat n =
     (if n < 10 then [''0123456789'' ! n] else str_nat (n div 10) @ [''0123456789'' ! (n mod 10)])"

declare str_nat.simps [simp del]

text \<open>\<open>get_rib\<close>: one dictionary for each route of the Loc-RIB, or for the route of one prefix.\<close>

record rib_entry =
  e_network :: string
  e_next_hop :: string
  e_as_path :: "nat list"
  e_local_pref :: nat
  e_med :: nat
  e_origin :: string
  e_communities :: "string list"

definition rib_entry_of :: "BGPRoute \<Rightarrow> rib_entry" where
  "rib_entry_of route =
     \<lparr>e_network = prefix route,
      e_next_hop = (case attr_next_hop route of None \<Rightarrow> '''' | Some h \<Rightarrow> h),
      e_as_path = (case attr_as_path route of None \<Rightarrow> [] | Some segs \<Rightarrow> as_sequence segs),
      e_local_pref = (case attr_local_pref route of None \<Rightarrow> 100 | Some v \<Rightarrow> v),
      e_med = (case attr_med route of None \<Rightarrow> 0 | Some v \<Rightarrow> v),
      e_origin = (case attr_origin route of None \<Rightarrow> ''igp'' | Some v \<Rightarrow> str_nat v),
      e_communities = []\<rparr>"

definition get_rib :: "BGPSpeaker \<Rightarrow> string option \<Rightarrow> rib_entry list" where
  "get_rib speaker prefix_arg =
     (let all_routes =
            (if \<not> py_not_str prefix_arg then
               (case loc_rib_lookup (loc_rib (speaker_agent speaker)) (the prefix_arg) of
                  Some route \<Rightarrow> [route]
                | None \<Rightarrow> [])
             else loc_rib_get_all_routes (loc_rib (speaker_agent speaker)))
      in map rib_entry_of all_routes)"

section \<open>Concrete instances\<close>

text \<open>
  An instance of the address parsers, for closed examples: a dotted quad of four decimal
  octets without leading zeros, on which \<open>int(ip_address(s))\<close> and \<open>inet_aton\<close> of the
  standard library agree. The general theorems hold for every parser; the examples only
  apply this one to dotted quads.
\<close>

definition digit_value :: "char \<Rightarrow> nat option" where
  "digit_value c =
     (let n = (of_char c :: nat) in if 48 \<le> n \<and> n \<le> 57 then Some (n - 48) else None)"

fun decimal_value :: "string \<Rightarrow> nat \<Rightarrow> nat option" where
  "decimal_value [] acc = Some acc"
| "decimal_value (c # cs) acc =
     (case digit_value c of None \<Rightarrow> None | Some d \<Rightarrow> decimal_value cs (acc * 10 + d))"

definition octet_value :: "string \<Rightarrow> nat option" where
  "octet_value s =
     (if s = [] \<or> length s > 3 \<or> (length s > 1 \<and> hd s = CHR ''0'') then None
      else (case decimal_value s 0 of
              None \<Rightarrow> None
            | Some n \<Rightarrow> if n \<le> 255 then Some n else None))"

definition ipv4_int :: "string \<Rightarrow> nat option" where
  "ipv4_int s =
     (case map octet_value (split_on CHR ''.'' s) of
        [Some a, Some b, Some c, Some d] \<Rightarrow> Some (((a * 256 + b) * 256 + c) * 256 + d)
      | _ \<Rightarrow> None)"

text \<open>Instances of \<open>int(s)\<close> on strings of decimal digits and of the address version.\<close>

definition digits_int :: "string \<Rightarrow> int option" where
  "digits_int s = (if s = [] then None else map_option int (decimal_value s 0))"

definition ipv4_version :: "string \<Rightarrow> nat option" where
  "ipv4_version s = (case ipv4_int s of None \<Rightarrow> None | Some _ \<Rightarrow> Some 4)"

text \<open>A selector for AS 65000 without IGP cost lookup, and three routes to one prefix.\<close>

definition example_selector :: BestPathSelector where
  "example_selector = \<lparr>local_as = 65000, router_id = ''4.4.4.4'', igp_cost_lookup = None\<rparr>"

definition route_a :: BGPRoute where
  "route_a = \<lparr>prefix = ''10.0.0.0/8'', attr_origin = Some 0,
     attr_as_path = Some [(2, [65001])], attr_next_hop = Some ''192.0.2.1'',
     attr_med = Some 10, attr_local_pref = None,
     peer_id = ''1.1.1.1'', peer_ip = ''192.0.2.1'', source = ''peer'', timestamp = 1\<rparr>"

definition route_b :: BGPRoute where
  "route_b = \<lparr>prefix = ''10.0.0.0/8'', attr_origin = Some 0,
     attr_as_path = Some [(2, [65002])], attr_next_hop = Some ''192.0.2.2'',
     attr_med = None, attr_local_pref = None,
     peer_id = ''2.2.2.2'', peer_ip = ''192.0.2.2'', source = ''peer'', timestamp = 2\<rparr>"

definition route_c :: BGPRoute where
  "route_c = \<lparr>prefix = ''10.0.0.0/8'', attr_origin = Some 0,
     attr_as_path = Some [(2, [65001])], attr_next_hop = Some ''192.0.2.3'',
     attr_med = Some 5, attr_local_pref = None,
     peer_id = ''3.3.3.3'', peer_ip = ''192.0.2.3'', source = ''peer'', timestamp = 3\<rparr>"

text \<open>
  An agent of AS 65001 with router id 4.4.4.4 and three peers: an active eBGP peer at
  172.16.0.1, a passive peer at 172.16.0.9, and a mesh peer of AS 65002 that is found by
  the AS number of its OPEN. The sessions behind the three references are parameters.
\<close>

definition active_config :: BGPSessionConfig where
  "active_config = \<lparr>config_peer_ip = ''172.16.0.1'', peer_as = 65000, local_ip = ''172.16.0.2'',
     is_passive = False, accept_any_source = False, peer_router_id = None,
     route_reflector_client = False\<rparr>"

definition passive_config :: BGPSessionConfig where
  "passive_config = \<lparr>config_peer_ip = ''172.16.0.9'', peer_as = 65003, local_ip = ''172.16.0.2'',
     is_passive = True, accept_any_source = False, peer_router_id = Some ''1.1.1.1'',
     route_reflector_client = False\<rparr>"

definition mesh_config :: BGPSessionConfig where
  "mesh_config = \<lparr>config_peer_ip = ''mesh-as65002'', peer_as = 65002, local_ip = ''172.16.0.2'',
     is_passive = True, accept_any_source = True, peer_router_id = None,
     route_reflector_client = False\<rparr>"

definition ibgp_config :: BGPSessionConfig where
  "ibgp_config = \<lparr>config_peer_ip = ''10.0.0.2'', peer_as = 65001, local_ip = ''10.0.0.1'',
     is_passive = False, accept_any_source = False, peer_router_id = None,
     route_reflector_client = False\<rparr>"

definition example_session ::
    "BGPSessionConfig \<Rightarrow> fsm_state \<Rightarrow> conn option \<Rightarrow> (string \<times> BGPRoute) list \<Rightarrow> BGPSession" where
  "example_session cfg st c table =
     \<lparr>config = cfg, fsm_state = st, session_peer_id = config_peer_ip cfg, pending_open = None,
      message_reader_task = (case c of None \<Rightarrow> None | Some _ \<Rightarrow> Some TaskRunning),
      reader = c, writer = c, adj_rib_in = table\<rparr>"

definition example_heap :: "BGPSession \<Rightarrow> BGPSession \<Rightarrow> BGPSession \<Rightarrow> ref \<Rightarrow> BGPSession" where
  "example_heap s0 s1 s2 r = (if r = 10 then s0 else if r = 11 then s1 else s2)"

definition example_agent :: "(ref \<Rightarrow> BGPSession) \<Rightarrow> BGPAgent" where
  "example_agent h =
     \<lparr>agent_local_as = 65001, agent_router_id = ''4.4.4.4'',
      sessions = [(''172.16.0.1'', 10), (''172.16.0.9'', 11), (''mesh-as65002'', 12)],
      mesh_sessions = [(65002, 12)],
      heap = h,
      loc_rib = [],
      best_path_selector = \<lparr>local_as = 65001, router_id = ''4.4.4.4'', igp_cost_lookup = None\<rparr>,
      apply_import_policy = (\<lambda>route peer. Some route),
      route_reflector = None,
      kernel_route_manager = None\<rparr>"

text \<open>
  An OPEN message of 29 bytes with the identifier 9.9.9.9, a stream on which the first 19
  bytes arrive at one moment and the rest at another, and a decoder instance that reads
  \<open>my_as\<close>, the hold time and the identifier at their offsets.
\<close>

definition open_bytes :: "nat \<Rightarrow> nat \<Rightarrow> nat list" where
  "open_bytes as_hi as_lo =
     replicate 16 255 @ [0, 29, 1] @ [4, as_hi, as_lo, 0, 90, 9, 9, 9, 9, 0]"

definition example_arrivals :: "real \<Rightarrow> real \<Rightarrow> nat list \<Rightarrow> stream" where
  "example_arrivals header_at body_at bytes =
     map (Pair header_at) (take 19 bytes) @ map (Pair body_at) (drop 19 bytes)"

definition example_decode :: "nat list \<Rightarrow> BGPOpen option" where
  "example_decode message =
     (if length message < 29 then None
      else Some \<lparr>my_as = message ! 20 * 256 + message ! 21,
                 hold_time = message ! 22 * 256 + message ! 23,
                 bgp_identifier =
                   str_nat (message ! 24) @ ''.'' @ str_nat (message ! 25) @ ''.'' @
                   str_nat (message ! 26) @ ''.'' @ str_nat (message ! 27)\<rparr>)"

text \<open>A route of the active peer, and the same route advertised again with LOCAL_PREF 200.\<close>

definition route_old :: BGPRoute where
  "route_old = \<lparr>prefix = ''10.0.0.0/8'', attr_origin = Some 0,
     attr_as_path = Some [(2, [65000])], attr_next_hop = Some ''172.16.0.1'',
     attr_med = None, attr_local_pref = Some 100,
     peer_id = ''172.16.0.1'', peer_ip = ''172.16.0.1'', source = ''peer'', timestamp = 1\<rparr>"

definition route_new :: BGPRoute where
  "route_new = route_old\<lparr>attr_local_pref := Some 200, timestamp := 2\<rparr>"

text \<open>A route originated by the agent itself, as \<open>originate_route\<close> builds it.\<close>

definition route_local :: BGPRoute where
  "route_local = \<lparr>prefix = ''10.99.99.0/24'', attr_origin = Some 0,
     attr_as_path = Some [], attr_next_hop = Some ''4.4.4.4'',
     attr_med = None, attr_local_pref = Some 100,
     peer_id = ''4.4.4.4'', peer_ip = ''4.4.4.4'', source = ''local'', timestamp = 0\<rparr>"

definition example_speaker :: BGPSpeaker where
  "example_speaker =
     \<lparr>speaker_agent =
        (example_agent (\<lambda>r. example_session active_config STATE_IDLE None []))
          \<lparr>loc_rib := [(''10.0.0.0/8'', route_old)]\<rparr>,
      speaker_local_as = 65001, rib = None\<rparr>"

text \<open>The agent with all three sessions in one state, each with a connection of its own or none.\<close>

definition agent_in_state :: "fsm_state \<Rightarrow> bool \<Rightarrow> BGPAgent" where
  "agent_in_state st has_conn =
     example_agent (example_heap
       (example_session active_config st (if has_conn then Some 7 else None) [])
       (example_session passive_config st (if has_conn then Some 8 else None) [])
       (example_session mesh_config st (if has_conn then Some 9 else None) []))"

text \<open>
  An agent with router id 4.4.4.4 and one active peer at 1.2.3.4, for which no router id
  is configured, in OpenSent over connection 7.
\<close>

definition low_address_agent :: BGPAgent where
  "low_address_agent =
     (example_agent (\<lambda>r. example_session (active_config\<lparr>config_peer_ip := ''1.2.3.4''\<rparr>)
         STATE_OPENSENT (Some 7) []))
       \<lparr>sessions := [(''1.2.3.4'', 10)], mesh_sessions := []\<rparr>"

text \<open>
  Modelled from the spec: the receipt of an UPDATE by an established session, which puts
  the advertised route into the Adj-RIB-In of that session under its prefix, in place of
  the route the peer advertised before.
\<close>

definition receive_update :: "BGPAgent \<Rightarrow> ref \<Rightarrow> BGPRoute \<Rightarrow> BGPAgent" where
  "receive_update agent r route =
     agent\<lparr>heap := (heap agent)
       (r := (heap agent r)\<lparr>adj_rib_in := alist_update (prefix route) route (adj_rib_in (heap agent r))\<rparr>)\<rparr>"

text \<open>
  The active peer, established, advertises \<open>route_old\<close>; a decision cycle runs; the peer
  advertises the prefix again as \<open>route_new\<close>.
\<close>

definition first_advertisement :: BGPAgent where
  "first_advertisement = receive_update (agent_in_state STATE_ESTABLISHED True) 10 route_old"

definition second_advertisement :: BGPAgent where
  "second_advertisement =
     receive_update (fst (run_decision_process ipv4_int first_advertisement)) 10 route_new"

section \<open>Properties of the comparator\<close>

lemma compare_local_pref_neg: "compare_local_pref a b = - compare_local_pref b a"
  by (simp add: compare_local_pref_def Let_def)

lemma compare_as_path_length_neg: "compare_as_path_length a b = - compare_as_path_length b a"
  by (simp add: compare_as_path_length_def Let_def)

lemma compare_origin_neg: "compare_origin a b = - compare_origin b a"
  by (simp add: compare_origin_def Let_def)

lemma compare_med_neg: "compare_med a b = - compare_med b a"
  by (simp add: compare_med_def Let_def)

lemma compare_ebgp_ibgp_neg: "compare_ebgp_ibgp sel a b = - compare_ebgp_ibgp sel b a"
  by (simp add: compare_ebgp_ibgp_def Let_def)

lemma compare_igp_metric_neg: "compare_igp_metric sel a b = - compare_igp_metric sel b a"
  by (simp add: compare_igp_metric_def split: option.splits lookup_result.splits)

lemma compare_age_neg: "compare_age a b = - compare_age b a"
  by (simp add: compare_age_def)

lemma compare_addr_neg: "compare_addr ip_int sa sb = - compare_addr ip_int sb sa"
  by (auto simp add: compare_addr_def split: option.splits)

text \<open>On a path without empty segment the neighbor AS is the leftmost AS of the path.\<close>

lemma get_neighbor_as_leftmost:
  assumes "attr_as_path r = Some segs" and "\<forall>seg\<in>set segs. snd seg \<noteq> []"
  shows "get_neighbor_as r = leftmost_as segs"
proof (cases segs)
  case Nil
  with assms show ?thesis by (simp add: get_neighbor_as_def)
next
  case (Cons seg rest)
  obtain seg_type as_list where s: "seg = (seg_type, as_list)" by (cases seg)
  with Cons assms(2) obtain first_as more where "as_list = first_as # more"
    by (cases as_list) auto
  with Cons s assms(1) show ?thesis by (simp add: get_neighbor_as_def)
qed

lemma compare_neg: "compare ip_int sel a b = - compare ip_int sel b a"
  using compare_local_pref_neg [of a b] compare_as_path_length_neg [of a b]
    compare_origin_neg [of a b] compare_med_neg [of a b] compare_ebgp_ibgp_neg [of sel a b]
    compare_igp_metric_neg [of sel a b] compare_age_neg [of a b]
    compare_addr_neg [of ip_int "peer_id a" "peer_id b"]
    compare_addr_neg [of ip_int "peer_ip a" "peer_ip b"]
  by (simp add: compare_def compare_router_id_def compare_peer_ip_def)

section \<open>Properties of the selection\<close>

lemma compare_refl: "compare ip_int sel r r = 0"
  using compare_neg [of ip_int sel r r] by simp

lemma scan_best_split:
  "\<exists>before after. best # rest = before @ scan_best ip_int sel best rest # after \<and>
     (\<forall>c\<in>set after. compare ip_int sel (scan_best ip_int sel best rest) c \<le> 0)"
proof (induction rest arbitrary: best)
  case Nil
  have "[best] = [] @ scan_best ip_int sel best [] # [] \<and>
     (\<forall>c\<in>set []. compare ip_int sel (scan_best ip_int sel best []) c \<le> 0)"
    by simp
  then show ?case by blast
next
  case (Cons candidate rest)
  show ?case
  proof (cases "compare ip_int sel best candidate > 0")
    case True
    let ?r = "scan_best ip_int sel candidate rest"
    from True have r: "scan_best ip_int sel best (candidate # rest) = ?r" by simp
    from Cons.IH [of candidate] obtain before after where
      d: "candidate # rest = before @ ?r # after"
      and a: "\<forall>c\<in>set after. compare ip_int sel ?r c \<le> 0"
      by blast
    from d have "best # candidate # rest = (best # before) @ ?r # after"
      by simp
    with a show ?thesis unfolding r by blast
  next
    case False
    define r where "r = scan_best ip_int sel best rest"
    from False have r: "scan_best ip_int sel best (candidate # rest) = r"
      by (simp add: r_def)
    from Cons.IH [of best] obtain before after where
      d: "best # rest = before @ r # after"
      and a: "\<forall>c\<in>set after. compare ip_int sel r c \<le> 0"
      unfolding r_def by blast
    show ?thesis
    proof (cases before)
      case Nil
      with d have b: "best = r" and r': "rest = after" by simp_all
      from False b have "compare ip_int sel r candidate \<le> 0" by simp
      with a r' have "\<forall>c\<in>set (candidate # rest). compare ip_int sel r c \<le> 0"
        by simp
      moreover from b have "best # candidate # rest = [] @ r # (candidate # rest)"
        by simp
      ultimately show ?thesis unfolding r by blast
    next
      case (Cons b bs)
      with d have "best # candidate # rest = (best # candidate # bs) @ r # after"
        by simp
      with a show ?thesis unfolding r by blast
    qed
  qed
qed

lemma scan_best_transitive:
  assumes T: "\<forall>x\<in>A. \<forall>y\<in>A. \<forall>z\<in>A.
      compare ip_int sel x y \<le> 0 \<longrightarrow> compare ip_int sel y z \<le> 0 \<longrightarrow> compare ip_int sel x z \<le> 0"
  shows "set (best # rest) \<union> seen \<subseteq> A \<Longrightarrow> \<forall>c\<in>seen. compare ip_int sel best c \<le> 0 \<Longrightarrow>
     \<forall>c\<in>seen \<union> set (best # rest). compare ip_int sel (scan_best ip_int sel best rest) c \<le> 0"
proof (induction rest arbitrary: best seen)
  case Nil
  then show ?case by (simp add: compare_refl)
next
  case (Cons candidate rest)
  show ?case
  proof (cases "compare ip_int sel best candidate > 0")
    case True
    then have cb: "compare ip_int sel candidate best \<le> 0"
      using compare_neg [of ip_int sel candidate best] by simp
    have sub: "set (candidate # rest) \<union> insert best seen \<subseteq> A"
      using Cons.prems(1) by auto
    have "\<forall>c\<in>insert best seen. compare ip_int sel candidate c \<le> 0"
    proof
      fix c assume c: "c \<in> insert best seen"
      show "compare ip_int sel candidate c \<le> 0"
      proof (cases "c = best")
        case True
        with cb show ?thesis by simp
      next
        case False
        with c have "c \<in> seen" by simp
        with Cons.prems(2) have "compare ip_int sel best c \<le> 0" by blast
        moreover have "candidate \<in> A" "best \<in> A" "c \<in> A"
          using Cons.prems(1) \<open>c \<in> seen\<close> by auto
        ultimately show ?thesis using T cb by blast
      qed
    qed
    from Cons.IH [OF sub this] True show ?thesis by simp
  next
    case False
    have sub: "set (best # rest) \<union> insert candidate seen \<subseteq> A"
      using Cons.prems(1) by auto
    have "\<forall>c\<in>insert candidate seen. compare ip_int sel best c \<le> 0"
      using False Cons.prems(2) by auto
    from Cons.IH [OF sub this] False show ?thesis by simp
  qed
qed

lemma select_best_scan: "select_best ip_int sel (r # rest) = Some (scan_best ip_int sel r rest)"
  by (cases rest) (simp_all add: select_best_def)

text \<open>
  Claim C2, as amended. For the empty list \<open>select_best\<close> returns \<open>None\<close>. For a
  non-empty list it returns a route \<open>r\<close> of the list, the winner of a scan from left to
  right in which a candidate replaces the incumbent only when it is strictly better:
  \<open>compare r c \<le> 0\<close> for every candidate \<open>c\<close> that comes after \<open>r\<close> in the list, and for
  every candidate of the list whenever \<open>compare x y \<le> 0\<close> is transitive on the
  candidates. It is not transitive in general, because rule 4 (MED) applies only between
  routes of the same neighbor AS.
\<close>

theorem select_best_result:
  "(routes = [] \<longrightarrow> select_best ip_int sel routes = None) \<and>
   (routes \<noteq> [] \<longrightarrow>
      (\<exists>r before after.
         select_best ip_int sel routes = Some r \<and> routes = before @ r # after \<and>
         (\<forall>c\<in>set after. compare ip_int sel r c \<le> 0) \<and>
         ((\<forall>x\<in>set routes. \<forall>y\<in>set routes. \<forall>z\<in>set routes.
              compare ip_int sel x y \<le> 0 \<longrightarrow> compare ip_int sel y z \<le> 0 \<longrightarrow>
              compare ip_int sel x z \<le> 0) \<longrightarrow>
          (\<forall>c\<in>set routes. compare ip_int sel r c \<le> 0))))"
proof (cases routes)
  case Nil
  then show ?thesis by (simp add: select_best_def)
next
  case (Cons first rest)
  let ?r = "scan_best ip_int sel first rest"
  from scan_best_split [of first rest ip_int sel] obtain before after where
    d: "first # rest = before @ ?r # after"
    and a: "\<forall>c\<in>set after. compare ip_int sel ?r c \<le> 0"
    by blast
  have t: "\<forall>c\<in>set routes. compare ip_int sel ?r c \<le> 0"
    if T: "\<forall>x\<in>set routes. \<forall>y\<in>set routes. \<forall>z\<in>set routes.
              compare ip_int sel x y \<le> 0 \<longrightarrow> compare ip_int sel y z \<le> 0 \<longrightarrow>
              compare ip_int sel x z \<le> 0"
    using scan_best_transitive [OF T, of first rest "{}"] Cons by simp
  show ?thesis
    using Cons d a t select_best_scan [of ip_int sel first rest] by blast
qed


lemma compare_router_id_neg: "compare_router_id ip_int a b = - compare_router_id ip_int b a"
  unfolding compare_router_id_def by (rule compare_addr_neg)

lemma compare_peer_ip_neg: "compare_peer_ip ip_int a b = - compare_peer_ip ip_int b a"
  unfolding compare_peer_ip_def by (rule compare_addr_neg)

lemmas compare_step_defs =
  compare_def compare_local_pref_def compare_as_path_length_def compare_origin_def
  compare_med_def get_neighbor_as_def compare_ebgp_ibgp_def compare_igp_metric_def
  compare_age_def AS_SET_def

lemma compare_a_b: "compare ip_int example_selector route_a route_b = - 1"
  by (simp add: compare_step_defs route_a_def route_b_def example_selector_def)

lemma compare_a_c: "compare ip_int example_selector route_a route_c = 1"
  by (simp add: compare_step_defs route_a_def route_c_def example_selector_def)

lemma compare_c_b: "compare ip_int example_selector route_c route_b = 1"
  by (simp add: compare_step_defs route_c_def route_b_def example_selector_def)

lemma select_best_a_b_c:
  "select_best ip_int example_selector [route_a, route_b, route_c] = Some route_c"
  by (simp add: select_best_def compare_a_b compare_a_c)

text \<open>
  Claim C10. The comparator is antisymmetric: for all routes \<open>a\<close> and \<open>b\<close>, every IGP
  cost lookup (or none) and every address parser, \<open>compare a b = - compare b a\<close>, and
  each of the nine steps gives the negated result when its arguments are swapped.
\<close>

theorem compare_antisymmetric:
  "compare ip_int sel a b = - compare ip_int sel b a \<and>
   compare_local_pref a b = - compare_local_pref b a \<and>
   compare_as_path_length a b = - compare_as_path_length b a \<and>
   compare_origin a b = - compare_origin b a \<and>
   compare_med a b = - compare_med b a \<and>
   compare_ebgp_ibgp sel a b = - compare_ebgp_ibgp sel b a \<and>
   compare_igp_metric sel a b = - compare_igp_metric sel b a \<and>
   compare_age a b = - compare_age b a \<and>
   compare_router_id ip_int a b = - compare_router_id ip_int b a \<and>
   compare_peer_ip ip_int a b = - compare_peer_ip ip_int b a"
  by (intro conjI compare_neg compare_local_pref_neg compare_as_path_length_neg
      compare_origin_neg compare_med_neg compare_ebgp_ibgp_neg compare_igp_metric_neg
      compare_age_neg compare_router_id_neg compare_peer_ip_neg)

theorem compare_antisymmetric_witness:
  "compare ipv4_int example_selector route_a route_b = - 1 \<and>
   compare ipv4_int example_selector route_b route_a = 1"
  using compare_antisymmetric [of ipv4_int example_selector route_a route_b]
  by (simp add: compare_a_b)

text \<open>
  Claim C3, as amended. The MED step decides between two routes only when the first AS of
  the leading AS_PATH segment is the same for both; whenever the two differ it returns a
  tie. When it decides, the route with the lower MED wins, an absent MED counting as 0.
  The first AS of the leading segment is absent exactly for a route without AS_PATH, with
  an AS_PATH without segments, or with an empty leading segment, and two routes for which
  it is absent count as having the same one. It is the first AS in AS_PATH for every
  route, except one whose AS_PATH has an empty leading segment and an AS in a later one.
\<close>

theorem compare_med_neighbor_as:
  "(get_neighbor_as a \<noteq> get_neighbor_as b \<longrightarrow> compare_med a b = 0) \<and>
   (get_neighbor_as a = get_neighbor_as b \<longrightarrow>
      compare_med a b =
        (if (case attr_med a of None \<Rightarrow> 0 | Some m \<Rightarrow> m) < (case attr_med b of None \<Rightarrow> 0 | Some m \<Rightarrow> m)
         then - 1
         else if (case attr_med b of None \<Rightarrow> 0 | Some m \<Rightarrow> m) < (case attr_med a of None \<Rightarrow> 0 | Some m \<Rightarrow> m)
         then 1 else 0)) \<and>
   (get_neighbor_as a = None \<longleftrightarrow>
      attr_as_path a = None \<or> attr_as_path a = Some [] \<or>
      (\<exists>seg_type rest. attr_as_path a = Some ((seg_type, []) # rest))) \<and>
   (get_neighbor_as a = Some n \<longleftrightarrow>
      (\<exists>seg_type as_list rest. attr_as_path a = Some ((seg_type, n # as_list) # rest))) \<and>
   (get_neighbor_as a = first_as_in_path a \<longleftrightarrow>
      \<not> (\<exists>seg_type rest. attr_as_path a = Some ((seg_type, []) # rest) \<and>
           leftmost_as rest \<noteq> None))"
proof (intro conjI)
  show "get_neighbor_as a \<noteq> get_neighbor_as b \<longrightarrow> compare_med a b = 0"
    by (simp add: compare_med_def)
  show "get_neighbor_as a = get_neighbor_as b \<longrightarrow>
      compare_med a b =
        (if (case attr_med a of None \<Rightarrow> 0 | Some m \<Rightarrow> m) < (case attr_med b of None \<Rightarrow> 0 | Some m \<Rightarrow> m)
         then - 1
         else if (case attr_med b of None \<Rightarrow> 0 | Some m \<Rightarrow> m) < (case attr_med a of None \<Rightarrow> 0 | Some m \<Rightarrow> m)
         then 1 else 0)"
    by (simp add: compare_med_def Let_def split: option.splits)
  show "get_neighbor_as a = None \<longleftrightarrow>
      attr_as_path a = None \<or> attr_as_path a = Some [] \<or>
      (\<exists>seg_type rest. attr_as_path a = Some ((seg_type, []) # rest))"
    by (auto simp: get_neighbor_as_def split: option.splits list.splits)
  show "get_neighbor_as a = Some n \<longleftrightarrow>
      (\<exists>seg_type as_list rest. attr_as_path a = Some ((seg_type, n # as_list) # rest))"
    by (auto simp: get_neighbor_as_def split: option.splits list.splits)
  show "get_neighbor_as a = first_as_in_path a \<longleftrightarrow>
      \<not> (\<exists>seg_type rest. attr_as_path a = Some ((seg_type, []) # rest) \<and>
           leftmost_as rest \<noteq> None)"
    by (auto simp: get_neighbor_as_def first_as_in_path_def split: option.splits list.splits)
qed

text \<open>
  Without the amendment the statement fails on a path with an empty leading segment. The
  first ASes 65001 and 65002 of two such routes differ, and the step decides by MED; and
  against \<open>route_c\<close>, whose first AS is 65001 too and whose MED is lower, the step
  returns a tie.
\<close>

theorem compare_med_first_as_counterexample:
  "first_as_in_path (route_a\<lparr>attr_as_path := Some [(2, []), (2, [65001])]\<rparr>) = Some 65001 \<and>
   first_as_in_path (route_c\<lparr>attr_as_path := Some [(2, []), (2, [65002])]\<rparr>) = Some 65002 \<and>
   compare_med (route_a\<lparr>attr_as_path := Some [(2, []), (2, [65001])]\<rparr>)
     (route_c\<lparr>attr_as_path := Some [(2, []), (2, [65002])]\<rparr>) = 1 \<and>
   first_as_in_path route_c = Some 65001 \<and>
   attr_med (route_a\<lparr>attr_as_path := Some [(2, []), (2, [65001])]\<rparr>) = Some 10 \<and>
   attr_med route_c = Some 5 \<and>
   compare_med (route_a\<lparr>attr_as_path := Some [(2, []), (2, [65001])]\<rparr>) route_c = 0"
  by (simp add: first_as_in_path_def compare_med_def get_neighbor_as_def route_a_def route_c_def)

theorem compare_med_neighbor_as_witness:
  "get_neighbor_as route_a = get_neighbor_as route_c \<and> compare_med route_a route_c = 1 \<and>
   get_neighbor_as route_a = first_as_in_path route_a \<and>
   get_neighbor_as route_a \<noteq> get_neighbor_as route_b \<and> compare_med route_a route_b = 0 \<and>
   get_neighbor_as (route_a\<lparr>attr_as_path := None\<rparr>) = None \<and>
   get_neighbor_as (route_c\<lparr>attr_as_path := Some []\<rparr>) = None \<and>
   compare_med (route_a\<lparr>attr_as_path := None\<rparr>) (route_c\<lparr>attr_as_path := Some []\<rparr>) = 1 \<and>
   compare_med (route_a\<lparr>attr_as_path := None\<rparr>) route_c = 0"
proof -
  let ?a' = "route_a\<lparr>attr_as_path := None\<rparr>" and ?c' = "route_c\<lparr>attr_as_path := Some []\<rparr>"
  have n: "get_neighbor_as route_a = Some 65001" "get_neighbor_as route_c = Some 65001"
    "get_neighbor_as route_b = Some 65002" "get_neighbor_as ?a' = None" "get_neighbor_as ?c' = None"
    by (simp_all add: get_neighbor_as_def route_a_def route_b_def route_c_def)
  have m: "attr_med route_a = Some 10" "attr_med route_c = Some 5"
    "attr_med ?a' = Some 10" "attr_med ?c' = Some 5"
    by (simp_all add: route_a_def route_c_def)
  have 1: "compare_med route_a route_c = 1"
    using compare_med_neighbor_as [of route_a route_c 0] by (simp add: n m)
  have 2: "compare_med route_a route_b = 0"
    using compare_med_neighbor_as [of route_a route_b 0] by (simp add: n)
  have 3: "compare_med ?a' ?c' = 1"
    using compare_med_neighbor_as [of ?a' ?c' 0] by (simp add: n m)
  have 4: "compare_med ?a' route_c = 0"
    using compare_med_neighbor_as [of ?a' route_c 0] by (simp add: n)
  have 5: "get_neighbor_as route_a = first_as_in_path route_a"
    using compare_med_neighbor_as [of route_a route_a 0] by (simp add: route_a_def)
  have e: "get_neighbor_as route_a = get_neighbor_as route_c"
    "get_neighbor_as route_a \<noteq> get_neighbor_as route_b"
    by (simp_all add: n)
  from e 1 2 3 4 5 n(4,5) show ?thesis
    by blast
qed

text \<open>
  Without the amendment the statement fails: of three routes with equal LOCAL_PREF, path length and
  ORIGIN, \<open>route_a\<close> and \<open>route_c\<close> from AS 65001 with MED 10 and 5, and \<open>route_b\<close> from
  AS 65002 received between them, the scan returns \<open>route_c\<close>, to which \<open>route_b\<close> is
  preferred (it is older, and MED does not apply across neighbor ASes).
\<close>

theorem select_best_not_best_counterexample:
  "select_best ipv4_int example_selector [route_a, route_b, route_c] = Some route_c \<and>
   route_b \<in> set [route_a, route_b, route_c] \<and> route_b \<noteq> route_c \<and>
   \<not> compare ipv4_int example_selector route_c route_b \<le> 0"
  by (simp add: select_best_a_b_c compare_c_b) (simp add: route_b_def route_c_def)

theorem select_best_result_witness:
  "[route_a, route_c] \<noteq> [] \<and>
   select_best ipv4_int example_selector [route_a, route_c] = Some route_c \<and>
   compare ipv4_int example_selector route_c route_a \<le> 0 \<and>
   compare ipv4_int example_selector route_c route_c \<le> 0"
proof -
  let ?cmp = "compare ipv4_int example_selector"
  let ?rs = "[route_a, route_c]"
  have ca: "?cmp route_c route_a = - 1"
    using compare_neg [of ipv4_int example_selector route_c route_a] by (simp add: compare_a_c)
  have T: "\<forall>x\<in>set ?rs. \<forall>y\<in>set ?rs. \<forall>z\<in>set ?rs.
      ?cmp x y \<le> 0 \<longrightarrow> ?cmp y z \<le> 0 \<longrightarrow> ?cmp x z \<le> 0"
    by (simp add: compare_refl compare_a_c ca)
  have s: "select_best ipv4_int example_selector ?rs = Some route_c"
    by (simp add: select_best_def compare_a_c)
  have ne: "?rs \<noteq> []" by simp
  from select_best_result [of ?rs ipv4_int example_selector] ne obtain r where
    r: "select_best ipv4_int example_selector ?rs = Some r"
    and b: "(\<forall>x\<in>set ?rs. \<forall>y\<in>set ?rs. \<forall>z\<in>set ?rs.
      ?cmp x y \<le> 0 \<longrightarrow> ?cmp y z \<le> 0 \<longrightarrow> ?cmp x z \<le> 0) \<longrightarrow>
      (\<forall>c\<in>set ?rs. ?cmp r c \<le> 0)"
    by blast
  from r s have "r = route_c" by simp
  with b T have "\<forall>c\<in>set ?rs. ?cmp route_c c \<le> 0" by blast
  then have "?cmp route_c route_a \<le> 0" "?cmp route_c route_c \<le> 0" by simp_all
  with ne s show ?thesis by blast
qed

section \<open>Properties of attribute preparation\<close>

lemma filter_list_insert:
  "filter P (list_insert i x xs) = (if P x then filter P (take i xs) @ x # filter P (drop i xs) else filter P xs)"
proof -
  have "filter P (take i xs) @ filter P (drop i xs) = filter P xs"
    by (metis append_take_drop_id filter_append)
  then show ?thesis by (simp add: list_insert_def)
qed

lemma leftmost_as_prepend: "leftmost_as (prepend asn segs) = Some asn"
  by (cases "(asn, segs)" rule: prepend.cases) simp_all

lemma prepare_loop_local_pref:
  "prepare_loop las cfg attrs st = Inr st' \<Longrightarrow>
     [a\<leftarrow>modified st'. type_code a = ATTR_LOCAL_PREF] =
       [a\<leftarrow>modified st. type_code a = ATTR_LOCAL_PREF] @
         (if peer_as cfg = las then [a\<leftarrow>attrs. type_code a = ATTR_LOCAL_PREF] else [])"
proof (induction attrs arbitrary: st)
  case Nil
  then show ?case by simp
next
  case (Cons attr rest)
  then show ?case
    by (auto simp: ATTR_ORIGIN_def ATTR_NEXT_HOP_def ATTR_AS_PATH_def ATTR_LOCAL_PREF_def
        split: if_splits sum.splits)
qed

lemma prepare_loop_as_path:
  "prepare_loop las cfg attrs st = Inr st' \<Longrightarrow>
     \<exists>paths. [a\<leftarrow>attrs. type_code a = ATTR_AS_PATH] = map ASPathAttribute paths \<and>
       [a\<leftarrow>modified st'. type_code a = ATTR_AS_PATH] =
         [a\<leftarrow>modified st. type_code a = ATTR_AS_PATH] @
           map (\<lambda>p. ASPathAttribute (if peer_as cfg \<noteq> las then prepend las p else p)) paths \<and>
       has_as_path st' = (has_as_path st \<or> paths \<noteq> [])"
proof (induction attrs arbitrary: st)
  case Nil
  then show ?case by simp
next
  case (Cons attr rest)
  show ?case
  proof (cases "type_code attr = ATTR_AS_PATH")
    case True
    with Cons.prems obtain segs where a: "attr = ASPathAttribute segs"
      by (cases attr) (auto simp: ATTR_ORIGIN_def ATTR_NEXT_HOP_def ATTR_AS_PATH_def split: if_splits)
    let ?st = "st\<lparr>modified := modified st @
                      [ASPathAttribute (if peer_as cfg \<noteq> las then prepend las segs else segs)],
                    has_as_path := True\<rparr>"
    from Cons.prems a have "prepare_loop las cfg rest ?st = Inr st'"
      by (simp add: ATTR_ORIGIN_def ATTR_NEXT_HOP_def ATTR_AS_PATH_def)
    from Cons.IH [OF this] obtain paths where
      p: "[a\<leftarrow>rest. type_code a = ATTR_AS_PATH] = map ASPathAttribute paths"
        "[a\<leftarrow>modified st'. type_code a = ATTR_AS_PATH] =
         [a\<leftarrow>modified ?st. type_code a = ATTR_AS_PATH] @
           map (\<lambda>p. ASPathAttribute (if peer_as cfg \<noteq> las then prepend las p else p)) paths"
        "has_as_path st' = (has_as_path ?st \<or> paths \<noteq> [])"
      by blast
    show ?thesis
      by (rule exI [of _ "segs # paths"]) (use a p in simp)
  next
    case False
    then obtain st1 where s1: "prepare_loop las cfg rest st1 = Inr st'"
      and m: "[a\<leftarrow>modified st1. type_code a = ATTR_AS_PATH] = [a\<leftarrow>modified st. type_code a = ATTR_AS_PATH]"
      and h: "has_as_path st1 = has_as_path st"
      using Cons.prems
      by (auto simp: ATTR_ORIGIN_def ATTR_NEXT_HOP_def ATTR_AS_PATH_def ATTR_LOCAL_PREF_def
          split: if_splits)
    from Cons.IH [OF s1] False m h show ?thesis by simp
  qed
qed



lemma filter_list_insert_other: "\<not> P x \<Longrightarrow> filter P (list_insert i x xs) = filter P xs"
  by (simp add: filter_list_insert)

lemma filter_list_insert_first:
  assumes "P x" and "filter P xs = []"
  shows "filter P (list_insert i x xs) = [x]"
proof -
  have "filter P (take i xs) @ filter P (drop i xs) = filter P xs"
    by (metis append_take_drop_id filter_append)
  with assms(2) have "filter P (take i xs) = []" and "filter P (drop i xs) = []"
    by simp_all
  with assms(1) show ?thesis
    by (simp add: list_insert_def)
qed

lemma ensure_mandatory_local_pref:
  "[a\<leftarrow>ensure_mandatory las cfg st. type_code a = ATTR_LOCAL_PREF] =
     (if peer_as cfg = las \<and> [a\<leftarrow>modified st. type_code a = ATTR_LOCAL_PREF] = []
      then [LocalPrefAttribute 100] else [a\<leftarrow>modified st. type_code a = ATTR_LOCAL_PREF])"
proof -
  let ?P = "\<lambda>a. type_code a = ATTR_LOCAL_PREF"
  have f1: "filter ?P (insert_origin st) = filter ?P (modified st)"
    by (simp add: insert_origin_def filter_list_insert_other ATTR_ORIGIN_def ATTR_LOCAL_PREF_def)
  have f2: "filter ?P (insert_as_path las cfg st m) = filter ?P m" for m
    by (simp add: insert_as_path_def filter_list_insert_other ATTR_AS_PATH_def ATTR_LOCAL_PREF_def)
  have f3: "filter ?P (insert_next_hop cfg st m) = filter ?P m" for m
    by (simp add: insert_next_hop_def filter_list_insert_other ATTR_NEXT_HOP_def ATTR_LOCAL_PREF_def)
  have f4: "filter ?P (add_local_pref las cfg m) =
      (if peer_as cfg = las \<and> filter ?P m = [] then [LocalPrefAttribute 100] else filter ?P m)" for m
    by (simp add: add_local_pref_def list_ex_iff filter_empty_conv ATTR_LOCAL_PREF_def)
  show ?thesis
    unfolding ensure_mandatory_def f4 f3 f2 f1 ..
qed

lemma ensure_mandatory_as_path:
  assumes "\<not> has_as_path st \<Longrightarrow> [a\<leftarrow>modified st. type_code a = ATTR_AS_PATH] = []"
  shows "[a\<leftarrow>ensure_mandatory las cfg st. type_code a = ATTR_AS_PATH] =
     (if has_as_path st then [a\<leftarrow>modified st. type_code a = ATTR_AS_PATH]
      else [ASPathAttribute (if peer_as cfg \<noteq> las then prepend las [] else [])])"
proof -
  let ?P = "\<lambda>a. type_code a = ATTR_AS_PATH"
  have f1: "filter ?P (insert_origin st) = filter ?P (modified st)"
    by (simp add: insert_origin_def filter_list_insert_other ATTR_ORIGIN_def ATTR_AS_PATH_def)
  have f2: "filter ?P (insert_as_path las cfg st (insert_origin st)) =
     (if has_as_path st then filter ?P (modified st)
      else [ASPathAttribute (if peer_as cfg \<noteq> las then prepend las [] else [])])"
  proof (cases "has_as_path st")
    case True
    then show ?thesis by (simp add: insert_as_path_def f1)
  next
    case False
    with assms f1 have "filter ?P (insert_origin st) = []" by simp
    with False show ?thesis
      unfolding insert_as_path_def by (simp add: filter_list_insert_first)
  qed
  have f3: "filter ?P (insert_next_hop cfg st m) = filter ?P m" for m
    by (simp add: insert_next_hop_def filter_list_insert_other ATTR_NEXT_HOP_def ATTR_AS_PATH_def)
  have f4: "filter ?P (add_local_pref las cfg m) = filter ?P m" for m
    by (simp add: add_local_pref_def ATTR_LOCAL_PREF_def ATTR_AS_PATH_def)
  show ?thesis
    unfolding ensure_mandatory_def f4 f3 f2 ..
qed


lemma prepare_loop_total:
  "\<forall>a\<in>set attrs. type_code a = ATTR_AS_PATH \<longrightarrow> (\<exists>p. a = ASPathAttribute p) \<Longrightarrow>
     \<exists>st'. prepare_loop las cfg attrs st = Inr st'"
proof (induction attrs arbitrary: st)
  case Nil
  then show ?case by simp
next
  case (Cons attr rest)
  then have r: "\<exists>st'. prepare_loop las cfg rest s = Inr st'" for s
    by simp
  show ?case
  proof (cases "type_code attr = ATTR_AS_PATH")
    case True
    with Cons.prems obtain p where "attr = ASPathAttribute p" by auto
    with r show ?thesis
      by (simp add: ATTR_ORIGIN_def ATTR_NEXT_HOP_def ATTR_AS_PATH_def)
  next
    case False
    with r show ?thesis by simp
  qed
qed

text \<open>
  Claim C7. For every input attribute list in which each attribute carrying the AS_PATH
  type code is an AS_PATH object, \<open>_prepare_attributes_for_advertisement\<close> returns a list
  \<open>out\<close> such that: towards an eBGP session (peer AS different from the local AS)
  \<open>out\<close> holds no LOCAL_PREF, its AS_PATH attributes are the input's with the local AS
  prepended (a path holding only the local AS when the input has none), and the local AS
  is the leftmost AS of each; towards an iBGP session the AS_PATH attributes are the
  input's unchanged (an empty path when the input has none) and the LOCAL_PREF attributes
  are the input's when it has one and a single LOCAL_PREF of 100 otherwise.
\<close>

theorem prepare_attributes_ebgp_ibgp:
  assumes wt: "\<forall>a\<in>set attributes. type_code a = ATTR_AS_PATH \<longrightarrow> (\<exists>p. a = ASPathAttribute p)"
  shows "\<exists>out paths.
     prepare_attributes_for_advertisement agent attributes session = Inr out \<and>
     [a\<leftarrow>attributes. type_code a = ATTR_AS_PATH] = map ASPathAttribute paths \<and>
     (peer_as (config session) \<noteq> agent_local_as agent \<longrightarrow>
        [a\<leftarrow>out. type_code a = ATTR_LOCAL_PREF] = [] \<and>
        [a\<leftarrow>out. type_code a = ATTR_AS_PATH] =
          map (\<lambda>p. ASPathAttribute (prepend (agent_local_as agent) p))
            (if paths = [] then [[]] else paths) \<and>
        (\<forall>a\<in>set out. type_code a = ATTR_AS_PATH \<longrightarrow>
           (\<exists>p. a = ASPathAttribute p \<and> leftmost_as p = Some (agent_local_as agent)))) \<and>
     (peer_as (config session) = agent_local_as agent \<longrightarrow>
        [a\<leftarrow>out. type_code a = ATTR_AS_PATH] =
          map ASPathAttribute (if paths = [] then [[]] else paths) \<and>
        [a\<leftarrow>out. type_code a = ATTR_LOCAL_PREF] =
          (if [a\<leftarrow>attributes. type_code a = ATTR_LOCAL_PREF] = [] then [LocalPrefAttribute 100]
           else [a\<leftarrow>attributes. type_code a = ATTR_LOCAL_PREF]))"
proof -
  let ?las = "agent_local_as agent" and ?cfg = "config session"
  let ?st0 = "\<lparr>modified = [], has_origin = False, has_as_path = False, has_next_hop = False\<rparr>"
  from prepare_loop_total [OF wt] obtain st where
    loop: "prepare_loop ?las ?cfg attributes ?st0 = Inr st"
    by blast
  let ?out = "ensure_mandatory ?las ?cfg st"
  have out: "prepare_attributes_for_advertisement agent attributes session = Inr ?out"
    by (simp add: prepare_attributes_for_advertisement_def loop)
  from prepare_loop_as_path [OF loop] obtain paths where
    inp: "[a\<leftarrow>attributes. type_code a = ATTR_AS_PATH] = map ASPathAttribute paths"
    and mp: "[a\<leftarrow>modified st. type_code a = ATTR_AS_PATH] =
       map (\<lambda>p. ASPathAttribute (if peer_as ?cfg \<noteq> ?las then prepend ?las p else p)) paths"
    and hp: "has_as_path st = (paths \<noteq> [])"
    by auto
  have "\<not> has_as_path st \<Longrightarrow> [a\<leftarrow>modified st. type_code a = ATTR_AS_PATH] = []"
    using mp hp by simp
  from ensure_mandatory_as_path [OF this, of ?las ?cfg]
  have ap: "[a\<leftarrow>?out. type_code a = ATTR_AS_PATH] =
      map (\<lambda>p. ASPathAttribute (if peer_as ?cfg \<noteq> ?las then prepend ?las p else p))
        (if paths = [] then [[]] else paths)"
    using mp hp by simp
  have lp: "[a\<leftarrow>?out. type_code a = ATTR_LOCAL_PREF] =
     (if peer_as ?cfg = ?las \<and> [a\<leftarrow>attributes. type_code a = ATTR_LOCAL_PREF] = []
      then [LocalPrefAttribute 100]
      else if peer_as ?cfg = ?las then [a\<leftarrow>attributes. type_code a = ATTR_LOCAL_PREF] else [])"
    using prepare_loop_local_pref [OF loop] by (simp add: ensure_mandatory_local_pref)
  have left: "\<exists>p. a = ASPathAttribute p \<and> leftmost_as p = Some ?las"
    if e: "peer_as ?cfg \<noteq> ?las" and a: "a \<in> set ?out" "type_code a = ATTR_AS_PATH" for a
  proof -
    from a have "a \<in> set [a\<leftarrow>?out. type_code a = ATTR_AS_PATH]" by simp
    with ap e have "a \<in> (\<lambda>p. ASPathAttribute (prepend ?las p)) ` set (if paths = [] then [[]] else paths)"
      by (simp del: prepend.simps)
    then obtain p where "a = ASPathAttribute (prepend ?las p)"
      by blast
    then show ?thesis by (simp add: leftmost_as_prepend)
  qed
  show ?thesis
    apply (rule exI [of _ ?out])
    apply (rule exI [of _ paths])
    using out inp ap lp left by auto
qed

lemma type_code_simps_numeral:
  "ATTR_ORIGIN = 1" "ATTR_AS_PATH = 2" "ATTR_NEXT_HOP = 3" "ATTR_MED = 4" "ATTR_LOCAL_PREF = 5"
  by (simp_all add: ATTR_ORIGIN_def ATTR_AS_PATH_def ATTR_NEXT_HOP_def ATTR_MED_def
      ATTR_LOCAL_PREF_def)

theorem prepare_attributes_ebgp_ibgp_witness:
  "prepare_attributes_for_advertisement (agent_in_state STATE_ESTABLISHED True)
     [OriginAttribute 0, ASPathAttribute [(2, [65010])], NextHopAttribute ''192.0.2.1'',
      LocalPrefAttribute 200]
     (example_session active_config STATE_ESTABLISHED (Some 7) [])
     = Inr [OriginAttribute 0, ASPathAttribute [(2, [65001, 65010])], NextHopAttribute ''172.16.0.2''] \<and>
   prepare_attributes_for_advertisement (agent_in_state STATE_ESTABLISHED True)
     [OriginAttribute 0, NextHopAttribute ''192.0.2.1'']
     (example_session ibgp_config STATE_ESTABLISHED (Some 7) [])
     = Inr [OriginAttribute 0, ASPathAttribute [], NextHopAttribute ''10.0.0.1'',
            LocalPrefAttribute 100] \<and>
   (\<exists>out. prepare_attributes_for_advertisement (agent_in_state STATE_ESTABLISHED True)
       [OriginAttribute 0, ASPathAttribute [(2, [65010])], NextHopAttribute ''192.0.2.1'',
        LocalPrefAttribute 200]
       (example_session active_config STATE_ESTABLISHED (Some 7) []) = Inr out \<and>
      [a\<leftarrow>out. type_code a = ATTR_LOCAL_PREF] = [] \<and>
      (\<forall>a\<in>set out. type_code a = ATTR_AS_PATH \<longrightarrow>
         (\<exists>p. a = ASPathAttribute p \<and> leftmost_as p = Some 65001)))"
proof -
  let ?attrs = "[OriginAttribute 0, ASPathAttribute [(2, [65010])], NextHopAttribute ''192.0.2.1'',
        LocalPrefAttribute 200]"
  let ?agent = "agent_in_state STATE_ESTABLISHED True"
  let ?e = "example_session active_config STATE_ESTABLISHED (Some 7) []"
  let ?i = "example_session ibgp_config STATE_ESTABLISHED (Some 7) []"
  have wt: "\<forall>a\<in>set ?attrs. type_code a = ATTR_AS_PATH \<longrightarrow> (\<exists>p. a = ASPathAttribute p)"
    by (simp add: type_code_simps_numeral)
  have las: "agent_local_as ?agent = 65001"
    by (simp add: agent_in_state_def example_agent_def)
  have cfg: "peer_as (config ?e) = 65000" "local_ip (config ?e) = ''172.16.0.2''"
    "peer_as (config ?i) = 65001" "local_ip (config ?i) = ''10.0.0.1''"
    by (simp_all add: example_session_def active_config_def ibgp_config_def)
  have e: "prepare_attributes_for_advertisement ?agent ?attrs ?e
     = Inr [OriginAttribute 0, ASPathAttribute [(2, [65001, 65010])], NextHopAttribute ''172.16.0.2'']"
    by (simp add: prepare_attributes_for_advertisement_def las cfg type_code_simps_numeral
        ensure_mandatory_def insert_origin_def insert_as_path_def insert_next_hop_def
        add_local_pref_def AS_SEQUENCE_def)
  have i: "prepare_attributes_for_advertisement ?agent
     [OriginAttribute 0, NextHopAttribute ''192.0.2.1''] ?i
     = Inr [OriginAttribute 0, ASPathAttribute [], NextHopAttribute ''10.0.0.1'',
            LocalPrefAttribute 100]"
    by (simp add: prepare_attributes_for_advertisement_def las cfg type_code_simps_numeral
        ensure_mandatory_def insert_origin_def insert_as_path_def insert_next_hop_def
        add_local_pref_def list_insert_def)
  from prepare_attributes_ebgp_ibgp [OF wt, of ?agent ?e] obtain out where
    "prepare_attributes_for_advertisement ?agent ?attrs ?e = Inr out"
    and "peer_as (config ?e) \<noteq> agent_local_as ?agent \<longrightarrow>
        [a\<leftarrow>out. type_code a = ATTR_LOCAL_PREF] = [] \<and>
        (\<forall>a\<in>set out. type_code a = ATTR_AS_PATH \<longrightarrow>
           (\<exists>p. a = ASPathAttribute p \<and> leftmost_as p = Some (agent_local_as ?agent)))"
    by blast
  then have "\<exists>out. prepare_attributes_for_advertisement ?agent ?attrs ?e = Inr out \<and>
      [a\<leftarrow>out. type_code a = ATTR_LOCAL_PREF] = [] \<and>
      (\<forall>a\<in>set out. type_code a = ATTR_AS_PATH \<longrightarrow>
         (\<exists>p. a = ASPathAttribute p \<and> leftmost_as p = Some 65001))"
    by (simp add: las cfg)
  with e i show ?thesis by blast
qed

section \<open>Properties of advertisement and of the connector\<close>

text \<open>
  Claim C8. For every route and every target session, in every configuration of the
  agent (with or without a route reflector), \<open>_should_advertise_to_peer\<close> is false for a
  route that is not local and was learned from the peer of the target session, and true
  for every route whose source is \<open>local\<close>.
\<close>

theorem split_horizon:
  "(source route \<noteq> ''local'' \<and> peer_id route = session_peer_id session \<longrightarrow>
      \<not> should_advertise_to_peer agent route session) \<and>
   (source route = ''local'' \<longrightarrow> should_advertise_to_peer agent route session)"
  by (simp add: should_advertise_to_peer_def)

theorem split_horizon_witness:
  "source route_old \<noteq> ''local'' \<and>
   peer_id route_old = session_peer_id (example_session active_config STATE_ESTABLISHED (Some 7) []) \<and>
   \<not> should_advertise_to_peer
       ((example_agent (\<lambda>r. example_session active_config STATE_ESTABLISHED (Some 7) []))
          \<lparr>route_reflector := Some (\<lambda>route from_peer to_peer is_ebgp. True)\<rparr>)
       route_old (example_session active_config STATE_ESTABLISHED (Some 7) []) \<and>
   source route_local = ''local'' \<and>
   should_advertise_to_peer
       ((example_agent (\<lambda>r. example_session active_config STATE_ESTABLISHED (Some 7) []))
          \<lparr>route_reflector := Some (\<lambda>route from_peer to_peer is_ebgp. False)\<rparr>)
       route_local (example_session active_config STATE_ESTABLISHED (Some 7) [])"
proof -
  let ?s = "example_session active_config STATE_ESTABLISHED (Some 7) []"
  have h: "source route_old \<noteq> ''local''" "peer_id route_old = session_peer_id ?s"
    "source route_local = ''local''"
    by (simp_all add: route_old_def route_local_def example_session_def active_config_def)
  show ?thesis
    using h
      split_horizon [of route_old ?s "(example_agent (\<lambda>r. ?s))
          \<lparr>route_reflector := Some (\<lambda>route from_peer to_peer is_ebgp. True)\<rparr>"]
      split_horizon [of route_local ?s "(example_agent (\<lambda>r. ?s))
          \<lparr>route_reflector := Some (\<lambda>route from_peer to_peer is_ebgp. False)\<rparr>"]
    by blast
qed

text \<open>
  Claim C9. For all arguments, \<open>inject_route\<close> and \<open>withdraw_route\<close> of the connector
  change at most the table \<open>rib\<close> of the speaker: the agent, and so its Loc-RIB, is the
  one before the call, and \<open>get_rib\<close>, which reads the Loc-RIB of the agent only, returns
  the same routes as before.
\<close>

theorem connector_frame:
  "speaker_agent (snd (inject_route py_int ip_version speaker network next_hop_arg as_path attributes))
     = speaker_agent speaker \<and>
   loc_rib (speaker_agent (snd (inject_route py_int ip_version speaker network next_hop_arg as_path attributes)))
     = loc_rib (speaker_agent speaker) \<and>
   get_rib (snd (inject_route py_int ip_version speaker network next_hop_arg as_path attributes)) p
     = get_rib speaker p \<and>
   snd (inject_route py_int ip_version speaker network next_hop_arg as_path attributes)
     = speaker\<lparr>rib := rib (snd (inject_route py_int ip_version speaker network next_hop_arg as_path attributes))\<rparr> \<and>
   speaker_agent (snd (withdraw_route py_int speaker network)) = speaker_agent speaker \<and>
   loc_rib (speaker_agent (snd (withdraw_route py_int speaker network)))
     = loc_rib (speaker_agent speaker) \<and>
   get_rib (snd (withdraw_route py_int speaker network)) p = get_rib speaker p \<and>
   snd (withdraw_route py_int speaker network)
     = speaker\<lparr>rib := rib (snd (withdraw_route py_int speaker network))\<rparr>"
proof -
  let ?i = "snd (inject_route py_int ip_version speaker network next_hop_arg as_path attributes)"
  let ?w = "snd (withdraw_route py_int speaker network)"
  have i: "?i = speaker\<lparr>rib := rib ?i\<rparr>"
    by (simp add: inject_route_def Let_def split: list.split option.split)
  have w: "?w = speaker\<lparr>rib := rib ?w\<rparr>"
    by (simp add: withdraw_route_def split: list.split option.split)
  have ia: "speaker_agent ?i = speaker_agent speaker"
    by (subst i) simp
  have wa: "speaker_agent ?w = speaker_agent speaker"
    by (subst w) simp
  have ig: "get_rib ?i p = get_rib speaker p"
    by (simp add: get_rib_def ia)
  have wg: "get_rib ?w p = get_rib speaker p"
    by (simp add: get_rib_def wa)
  show ?thesis
    using i w ia wa ig wg by simp
qed

lemma ipv4_int_10_99: "ipv4_int ''10.99.99.0'' = Some 174285568"
  by (simp add: ipv4_int_def octet_value_def digit_value_def)

lemma digits_int_24: "digits_int ''24'' = Some 24"
  by (simp add: digits_int_def digit_value_def)

theorem connector_frame_witness:
  "fst (inject_route digits_int ipv4_version example_speaker ''10.99.99.0/24'' (Some ''172.16.0.2'') None [])
     = InjectSuccess ''10.99.99.0/24''
         \<lparr>ri_next_hop = ''172.16.0.2'', ri_as_path = [65001], ri_local_pref = PyInt 100,
          ri_med = PyInt 0, ri_origin = PyStr ''igp''\<rparr> \<and>
   rib (snd (inject_route digits_int ipv4_version example_speaker ''10.99.99.0/24'' (Some ''172.16.0.2'') None []))
     \<noteq> rib example_speaker \<and>
   loc_rib (speaker_agent (snd (inject_route digits_int ipv4_version example_speaker ''10.99.99.0/24''
      (Some ''172.16.0.2'') None []))) = [(''10.0.0.0/8'', route_old)] \<and>
   get_rib (snd (inject_route digits_int ipv4_version example_speaker ''10.99.99.0/24''
      (Some ''172.16.0.2'') None [])) None = get_rib example_speaker None"
proof -
  let ?r = "inject_route digits_int ipv4_version example_speaker ''10.99.99.0/24'' (Some ''172.16.0.2'') None []"
  have e: "?r = (InjectSuccess ''10.99.99.0/24''
         \<lparr>ri_next_hop = ''172.16.0.2'', ri_as_path = [65001], ri_local_pref = PyInt 100,
          ri_med = PyInt 0, ri_origin = PyStr ''igp''\<rparr>,
       example_speaker\<lparr>rib := Some [((''10.99.99.0'', 24, 1, 1),
         \<lparr>ri_next_hop = ''172.16.0.2'', ri_as_path = [65001], ri_local_pref = PyInt 100,
          ri_med = PyInt 0, ri_origin = PyStr ''igp''\<rparr>)]\<rparr>)"
    by (simp add: inject_route_def ipv4_version_def ipv4_int_10_99 digits_int_24 py_not_str_def
        dict_get_def example_speaker_def Let_def)
  have l: "loc_rib (speaker_agent example_speaker) = [(''10.0.0.0/8'', route_old)]"
    by (simp add: example_speaker_def)
  have n: "rib example_speaker = None"
    by (simp add: example_speaker_def)
  from connector_frame [of digits_int ipv4_version example_speaker "''10.99.99.0/24''"
      "Some ''172.16.0.2''" None "[]" None]
  show ?thesis
    by (simp add: l) (simp add: e n)
qed

section \<open>Properties of the handling of incoming connections\<close>

text \<open>
  Claim C4, as amended. An incoming connection for a session whose state is Established
  is rejected (its writer is closed and it is not handed to the session) when the session
  was found by source address and its peer is not passive, and when the session was
  found by the AS number of the OPEN (mesh identification; the stored OPEN is cleared
  again). For a passive peer found by source address the handler checks no state: in every
  state, Established included, it hands the connection to \<open>session.accept_connection\<close>
  with \<open>is_collision\<close> false.
\<close>

theorem established_rejects_unless_passive:
  "(map_of (sessions agent) addr = Some r \<and> fsm_state (heap agent r) = STATE_ESTABLISHED \<and>
      \<not> is_passive (config (heap agent r)) \<longrightarrow>
      handle_incoming_connection inet_aton decode agent addr incoming arrivals
        = (agent, [CloseWriter incoming])) \<and>
   (map_of (sessions agent) addr = None \<and> mesh_sessions agent \<noteq> [] \<and>
      read_open_message decode arrivals 30 = Some open_msg \<and>
      map_of (mesh_sessions agent) (my_as open_msg) = Some r \<and>
      fsm_state (heap agent r) = STATE_ESTABLISHED \<longrightarrow>
      handle_incoming_connection inet_aton decode agent addr incoming arrivals
        = (agent\<lparr>heap := (heap agent)(r := (heap agent r)\<lparr>pending_open := None\<rparr>)\<rparr>,
           [ReadOpenMessage 30, CloseWriter incoming])) \<and>
   (map_of (sessions agent) addr = Some r \<and> is_passive (config (heap agent r)) \<longrightarrow>
      handle_incoming_connection inet_aton decode agent addr incoming arrivals
        = (agent, [AcceptConnection r incoming False]))"
  by (simp add: handle_incoming_connection_def dispatch_to_session_def)


text \<open>
  When one of the two identifiers is no address the conversion raises, and the handler's
  outer \<open>except\<close> closes the incoming connection; the session is left as it is.
\<close>

lemma collision_unreadable_identifier:
  assumes "map_of (sessions agent) addr = Some r"
    and "\<not> is_passive (config (heap agent r))"
    and "fsm_state (heap agent r) = STATE_OPENSENT \<or> fsm_state (heap agent r) = STATE_OPENCONFIRM"
    and "inet_aton (agent_router_id agent) = None \<or>
         inet_aton (peer_router_id_or (config (heap agent r)) addr) = None"
  shows "handle_incoming_connection inet_aton decode agent addr incoming arrivals
           = (agent, [CloseWriter incoming])"
  using assms
  by (auto simp add: handle_incoming_connection_def dispatch_to_session_def resolve_collision_def
      Let_def split: option.splits)

lemma readexactly_Some:
  "readexactly arrivals start offset n timeout = Some (bytes, finished) \<longleftrightarrow>
     n \<le> length arrivals - offset \<and>
     arrival_time start (take n (drop offset arrivals)) - start \<le> timeout \<and>
     bytes = map snd (take n (drop offset arrivals)) \<and>
     finished = arrival_time start (take n (drop offset arrivals))"
  by (auto simp: readexactly_def Let_def)

lemma readexactly_None:
  "readexactly arrivals start offset n timeout = None \<longleftrightarrow>
     \<not> (n \<le> length arrivals - offset \<and>
        arrival_time start (take n (drop offset arrivals)) - start \<le> timeout)"
  by (auto simp: readexactly_def Let_def)

text \<open>
  When \<open>_read_open_message\<close> returns an OPEN: the 19 bytes of a header arrive within the
  timeout, with the all-ones marker and type 1; when the length field is above 19 the
  rest of the message arrives within the timeout counted from the moment the header was
  read; and the bytes of that one message decode to the OPEN.
\<close>

lemma read_open_message_Some:
  "read_open_message decode arrivals timeout = Some open_msg \<longleftrightarrow>
     19 \<le> length arrivals \<and>
     arrival_time 0 (take 19 arrivals) \<le> timeout \<and>
     map snd (take 16 arrivals) = replicate 16 255 \<and>
     snd (arrivals ! 18) = MSG_OPEN \<and>
     (if 19 < header_length_field arrivals then
        header_length_field arrivals \<le> length arrivals \<and>
        arrival_time (arrival_time 0 (take 19 arrivals))
            (take (header_length_field arrivals - 19) (drop 19 arrivals))
          - arrival_time 0 (take 19 arrivals) \<le> timeout \<and>
        decode (map snd (take (header_length_field arrivals) arrivals)) = Some open_msg
      else decode (map snd (take 19 arrivals)) = Some open_msg)"
proof (cases "readexactly arrivals 0 0 BGP_HEADER_SIZE timeout")
  case None
  then have "\<not> (19 \<le> length arrivals \<and> arrival_time 0 (take 19 arrivals) \<le> timeout)"
    by (simp add: readexactly_None BGP_HEADER_SIZE_def)
  moreover from None have "read_open_message decode arrivals timeout = None"
    by (simp add: read_open_message_def)
  ultimately show ?thesis by auto
next
  case (Some read)
  obtain header t where read: "read = (header, t)" by (cases read)
  define L where "L = header_length_field arrivals"
  from Some read have len: "19 \<le> length arrivals"
    and tm: "arrival_time 0 (take 19 arrivals) \<le> timeout"
    and hd: "header = map snd (take 19 arrivals)"
    and t: "t = arrival_time 0 (take 19 arrivals)"
    by (simp_all add: readexactly_Some BGP_HEADER_SIZE_def)
  have f: "take 16 header = map snd (take 16 arrivals)"
    "header ! 16 = snd (arrivals ! 16)" "header ! 17 = snd (arrivals ! 17)"
    "header ! 18 = snd (arrivals ! 18)"
    using len by (simp_all add: hd take_map min_def)
  have lf: "header ! 16 * 256 + header ! 17 = L"
    by (simp add: f L_def header_length_field_def)
  have r: "read_open_message decode arrivals timeout =
      (if map snd (take 16 arrivals) \<noteq> replicate 16 255 then None
       else if snd (arrivals ! 18) \<noteq> MSG_OPEN then None
       else if 19 < L then
         (case readexactly arrivals t 19 (L - 19) timeout of
            None \<Rightarrow> None
          | Some (body, body_read) \<Rightarrow> decode (header @ body))
       else decode header)"
    using Some read f(1,4) lf
    by (simp add: read_open_message_def Let_def BGP_HEADER_SIZE_def del: replicate.simps)
  show ?thesis
  proof (cases "19 < L")
    case False
    with r have v: "read_open_message decode arrivals timeout =
          (if map snd (take 16 arrivals) \<noteq> replicate 16 255 then None
           else if snd (arrivals ! 18) \<noteq> MSG_OPEN then None
           else decode (map snd (take 19 arrivals)))"
      by (simp add: hd)
    from False len tm show ?thesis
      unfolding v L_def [symmetric] by auto
  next
    case True
    show ?thesis
    proof (cases "readexactly arrivals t 19 (L - 19) timeout")
      case None
      then have neg: "\<not> (L \<le> length arrivals \<and>
          arrival_time t (take (L - 19) (drop 19 arrivals)) - t \<le> timeout)"
        using True len by (auto simp: readexactly_None)
      from None r True have n: "read_open_message decode arrivals timeout = None"
        by simp
      from neg True show ?thesis
        unfolding n L_def [symmetric] t [symmetric] by auto
    next
      case (Some read2)
      obtain body t2 where read2: "read2 = (body, t2)" by (cases read2)
      from Some read2 have bl: "L - 19 \<le> length arrivals - 19"
        and bt: "arrival_time t (take (L - 19) (drop 19 arrivals)) - t \<le> timeout"
        and bd: "body = map snd (take (L - 19) (drop 19 arrivals))"
        by (simp_all add: readexactly_Some)
      have "take L arrivals = take 19 arrivals @ take (L - 19) (drop 19 arrivals)"
        using True take_add [of 19 "L - 19" arrivals] by simp
      then have hb: "header @ body = map snd (take L arrivals)"
        by (simp add: hd bd)
      from bl True len have ll: "L \<le> length arrivals" by simp
      from Some read2 r True hb have v: "read_open_message decode arrivals timeout =
          (if map snd (take 16 arrivals) \<noteq> replicate 16 255 then None
           else if snd (arrivals ! 18) \<noteq> MSG_OPEN then None
           else decode (map snd (take L arrivals)))"
        by simp
      from ll bt len tm True show ?thesis
        unfolding v L_def [symmetric] t [symmetric] by auto
    qed
  qed
qed

text \<open>
  Claim C6, as amended. For an incoming connection whose source address matches no
  session, when at least one mesh peer is configured, the handler reads one OPEN, the
  header and then the body each with a timeout of 30 seconds of its own. When no valid
  OPEN is read, or its \<open>my_as\<close> is not in the mesh index, the connection is closed. When
  \<open>my_as\<close> is the AS of a mesh session that is not Established, the OPEN is stored in
  \<open>pending_open\<close> of that session and the connection is handed to it. An OPEN is read
  exactly when the 19 bytes of a header with the all-ones marker and type 1 arrive within
  30 seconds, the rest of the message, as long as the length field says, arrives within
  30 seconds after the header was read, and the bytes of that one message decode.
\<close>

theorem mesh_identification:
  assumes "map_of (sessions agent) addr = None" and "mesh_sessions agent \<noteq> []"
  shows "(read_open_message decode arrivals 30 = None \<longrightarrow>
            handle_incoming_connection inet_aton decode agent addr incoming arrivals
              = (agent, [ReadOpenMessage 30, CloseWriter incoming])) \<and>
         (read_open_message decode arrivals 30 = Some open_msg \<longrightarrow>
            (map_of (mesh_sessions agent) (my_as open_msg) = None \<longrightarrow>
               handle_incoming_connection inet_aton decode agent addr incoming arrivals
                 = (agent, [ReadOpenMessage 30, CloseWriter incoming])) \<and>
            (map_of (mesh_sessions agent) (my_as open_msg) = Some r \<and>
             fsm_state (heap agent r) \<noteq> STATE_ESTABLISHED \<longrightarrow>
               handle_incoming_connection inet_aton decode agent addr incoming arrivals
                 = (agent\<lparr>heap := (heap agent)(r := (heap agent r)\<lparr>pending_open := Some open_msg\<rparr>)\<rparr>,
                    [ReadOpenMessage 30, AcceptConnection r incoming False]))) \<and>
         (read_open_message decode arrivals 30 = Some open_msg \<longleftrightarrow>
            19 \<le> length arrivals \<and>
            arrival_time 0 (take 19 arrivals) \<le> 30 \<and>
            map snd (take 16 arrivals) = replicate 16 255 \<and>
            snd (arrivals ! 18) = MSG_OPEN \<and>
            (if 19 < header_length_field arrivals then
               header_length_field arrivals \<le> length arrivals \<and>
               arrival_time (arrival_time 0 (take 19 arrivals))
                   (take (header_length_field arrivals - 19) (drop 19 arrivals))
                 - arrival_time 0 (take 19 arrivals) \<le> 30 \<and>
               decode (map snd (take (header_length_field arrivals) arrivals)) = Some open_msg
             else decode (map snd (take 19 arrivals)) = Some open_msg))"
proof (intro conjI impI)
  assume "read_open_message decode arrivals 30 = None"
  with assms show "handle_incoming_connection inet_aton decode agent addr incoming arrivals
              = (agent, [ReadOpenMessage 30, CloseWriter incoming])"
    by (simp add: handle_incoming_connection_def)
next
  assume "read_open_message decode arrivals 30 = Some open_msg"
    and "map_of (mesh_sessions agent) (my_as open_msg) = None"
  with assms show "handle_incoming_connection inet_aton decode agent addr incoming arrivals
              = (agent, [ReadOpenMessage 30, CloseWriter incoming])"
    by (simp add: handle_incoming_connection_def)
next
  assume "read_open_message decode arrivals 30 = Some open_msg"
    and "map_of (mesh_sessions agent) (my_as open_msg) = Some r \<and>
         fsm_state (heap agent r) \<noteq> STATE_ESTABLISHED"
  with assms show "handle_incoming_connection inet_aton decode agent addr incoming arrivals
       = (agent\<lparr>heap := (heap agent)(r := (heap agent r)\<lparr>pending_open := Some open_msg\<rparr>)\<rparr>,
          [ReadOpenMessage 30, AcceptConnection r incoming False])"
    by (simp add: handle_incoming_connection_def dispatch_to_session_def)
next
  show "read_open_message decode arrivals 30 = Some open_msg \<longleftrightarrow>
            19 \<le> length arrivals \<and>
            arrival_time 0 (take 19 arrivals) \<le> 30 \<and>
            map snd (take 16 arrivals) = replicate 16 255 \<and>
            snd (arrivals ! 18) = MSG_OPEN \<and>
            (if 19 < header_length_field arrivals then
               header_length_field arrivals \<le> length arrivals \<and>
               arrival_time (arrival_time 0 (take 19 arrivals))
                   (take (header_length_field arrivals - 19) (drop 19 arrivals))
                 - arrival_time 0 (take 19 arrivals) \<le> 30 \<and>
               decode (map snd (take (header_length_field arrivals) arrivals)) = Some open_msg
             else decode (map snd (take 19 arrivals)) = Some open_msg)"
    by (rule read_open_message_Some)
qed

lemma str_nat_9: "str_nat 9 = ''9''"
  by (subst str_nat.simps) simp

lemma str_nat_120: "str_nat 120 = ''120''"
  by (simp add: str_nat.simps)

lemma arrival_time_const:
  "arrival_time start (map (Pair t) xs) = (if xs = [] then start else max start t)"
proof (induction xs arbitrary: start)
  case Nil
  show ?case by (simp add: arrival_time_def)
next
  case (Cons x xs)
  have "arrival_time start (map (Pair t) (x # xs)) = arrival_time (max t start) (map (Pair t) xs)"
    by (simp add: arrival_time_def)
  then show ?case by (simp add: Cons.IH max.commute)
qed

lemma arrival_time_example:
  "arrival_time start (example_arrivals header_at body_at bytes)
     = arrival_time (arrival_time start (map (Pair header_at) (take 19 bytes)))
         (map (Pair body_at) (drop 19 bytes))"
  by (simp add: example_arrivals_def arrival_time_def)

lemma example_arrivals_parts:
  assumes "19 \<le> length bytes"
  shows "take 19 (example_arrivals header_at body_at bytes) = map (Pair header_at) (take 19 bytes)"
    and "drop 19 (example_arrivals header_at body_at bytes) = map (Pair body_at) (drop 19 bytes)"
    and "length (example_arrivals header_at body_at bytes) = length bytes"
  using assms by (simp_all add: example_arrivals_def)

lemma open_bytes_parts:
  "length (open_bytes hi lo) = 29"
  "take 19 (open_bytes hi lo) = replicate 16 255 @ [0, 29, 1]"
  "drop 19 (open_bytes hi lo) = [4, hi, lo, 0, 90, 9, 9, 9, 9, 0]"
  by (simp_all add: open_bytes_def)

lemma header_ok:
  "readexactly (example_arrivals header_at body_at (open_bytes hi lo)) 0 0 19 30 =
     (if header_at \<le> 30 then Some (replicate 16 255 @ [0, 29, 1], max 0 header_at) else None)"
proof -
  have "take 19 (example_arrivals header_at body_at (open_bytes hi lo))
      = map (Pair header_at) (replicate 16 255 @ [0, 29, 1])"
    by (simp add: example_arrivals_parts open_bytes_parts)
  then show ?thesis
    by (simp add: readexactly_def arrival_time_const Let_def map_replicate_const comp_def
        del: map_append)
qed

lemma body_ok:
  "readexactly (example_arrivals header_at body_at (open_bytes hi lo)) start 19 10 30 =
     (if max start body_at - start \<le> 30
      then Some ([4, hi, lo, 0, 90, 9, 9, 9, 9, 0], max start body_at) else None)"
proof -
  have "take 10 (drop 19 (example_arrivals header_at body_at (open_bytes hi lo)))
      = map (Pair body_at) [4, hi, lo, 0, 90, 9, 9, 9, 9, 0]"
    by (simp add: example_arrivals_parts open_bytes_parts)
  then show ?thesis
    by (simp add: readexactly_def arrival_time_const Let_def comp_def del: list.map)
      (simp add: max_def)
qed

lemma decode_ok: "example_decode (open_bytes hi lo)
   = Some \<lparr>my_as = hi * 256 + lo, hold_time = 90, bgp_identifier = ''9.9.9.9''\<rparr>"
  by (simp add: example_decode_def open_bytes_def str_nat_9 nth_append)

lemma read_open_example:
  "read_open_message example_decode (example_arrivals header_at body_at (open_bytes hi lo)) 30
     = (if header_at \<le> 30 \<and> max (max 0 header_at) body_at - max 0 header_at \<le> 30
        then Some \<lparr>my_as = hi * 256 + lo, hold_time = 90, bgp_identifier = ''9.9.9.9''\<rparr>
        else None)"
proof -
  define header :: "nat list" where "header = replicate 16 255 @ [0, 29, 1]"
  define body where "body = [4, hi, lo, 0, 90, 9, 9, 9, 9, 0]"
  let ?s = "example_arrivals header_at body_at (open_bytes hi lo)"
  have h: "readexactly ?s 0 0 BGP_HEADER_SIZE 30 =
      (if header_at \<le> 30 then Some (header, max 0 header_at) else None)"
    by (simp add: header_ok header_def BGP_HEADER_SIZE_def)
  have b: "readexactly ?s start BGP_HEADER_SIZE (29 - BGP_HEADER_SIZE) 30 =
      (if max start body_at - start \<le> 30 then Some (body, max start body_at) else None)" for start
  proof -
    have "(29::nat) - 19 = 10" by simp
    then show ?thesis
      unfolding body_def BGP_HEADER_SIZE_def by (simp only: body_ok)
  qed
  have f: "take 16 header = replicate 16 255" "header ! 16 = 0" "header ! 17 = 29"
    "header ! 18 = MSG_OPEN"
    by (simp_all add: header_def nth_append MSG_OPEN_def)
  have hb: "header @ body = open_bytes hi lo"
    by (simp add: header_def body_def open_bytes_def)
  have l: "BGP_HEADER_SIZE < 29" by (simp add: BGP_HEADER_SIZE_def)
  show ?thesis
    by (simp add: read_open_message_def h b f hb l Let_def decode_ok)
qed

lemma read_open_nothing:
  "read_open_message example_decode (example_arrivals header_at body_at []) 30 = None"
  by (simp add: read_open_message_def BGP_HEADER_SIZE_def readexactly_def example_arrivals_def)

lemma ipv4_int_local: "ipv4_int ''4.4.4.4'' = Some 67372036"
  by (simp add: ipv4_int_def octet_value_def digit_value_def)



lemma agent_in_state_sessions:
  "map_of (sessions (agent_in_state st c)) ''172.16.0.1'' = Some 10"
  "map_of (sessions (agent_in_state st c)) ''172.16.0.9'' = Some 11"
  "map_of (sessions (agent_in_state st c)) ''203.0.113.7'' = None"
  "mesh_sessions (agent_in_state st c) = [(65002, 12)]"
  "agent_router_id (agent_in_state st c) = ''4.4.4.4''"
  by (simp_all add: agent_in_state_def example_agent_def)

lemma agent_in_state_heap:
  "heap (agent_in_state st c) 10 = example_session active_config st (if c then Some 7 else None) []"
  "heap (agent_in_state st c) 11 = example_session passive_config st (if c then Some 8 else None) []"
  "heap (agent_in_state st c) 12 = example_session mesh_config st (if c then Some 9 else None) []"
  by (simp_all add: agent_in_state_def example_agent_def example_heap_def)

lemma example_session_fields:
  "fsm_state (example_session cfg st c table) = st"
  "config (example_session cfg st c table) = cfg"
  "writer (example_session cfg st c table) = c"
  "pending_open (example_session cfg st c table) = None"
  "message_reader_task (example_session cfg st (Some n) table) = Some TaskRunning"
  "adj_rib_in (example_session cfg st c table) = table"
  "session_peer_id (example_session cfg st c table) = config_peer_ip cfg"
  by (simp_all add: example_session_def)

lemma example_config_fields:
  "\<not> is_passive active_config" "is_passive passive_config" "is_passive mesh_config"
  "peer_router_id_or active_config addr = addr"
  "peer_router_id_or passive_config addr = ''1.1.1.1''"
  by (simp_all add: active_config_def passive_config_def mesh_config_def peer_router_id_or_def
      py_not_str_def)

theorem established_rejects_unless_passive_witness:
  "handle_incoming_connection ipv4_int example_decode (agent_in_state STATE_ESTABLISHED True)
       ''172.16.0.1'' 20 (example_arrivals 1 1 [])
     = (agent_in_state STATE_ESTABLISHED True, [CloseWriter 20]) \<and>
   snd (handle_incoming_connection ipv4_int example_decode (agent_in_state STATE_ESTABLISHED True)
       ''203.0.113.7'' 20 (example_arrivals 1 1 (open_bytes 253 234)))
     = [ReadOpenMessage 30, CloseWriter 20] \<and>
   handle_incoming_connection ipv4_int example_decode (agent_in_state STATE_IDLE False)
       ''172.16.0.9'' 20 (example_arrivals 1 1 [])
     = (agent_in_state STATE_IDLE False, [AcceptConnection 11 20 False])"
proof -
  let ?e = "agent_in_state STATE_ESTABLISHED True"
  let ?i = "agent_in_state STATE_IDLE False"
  have a: "map_of (sessions ?e) ''172.16.0.1'' = Some 10 \<and> fsm_state (heap ?e 10) = STATE_ESTABLISHED \<and>
      \<not> is_passive (config (heap ?e 10))"
    by (simp add: agent_in_state_sessions agent_in_state_heap example_session_fields
        example_config_fields)
  have b: "map_of (sessions ?e) ''203.0.113.7'' = None \<and> mesh_sessions ?e \<noteq> [] \<and>
      read_open_message example_decode (example_arrivals 1 1 (open_bytes 253 234)) 30
        = Some \<lparr>my_as = 65002, hold_time = 90, bgp_identifier = ''9.9.9.9''\<rparr> \<and>
      map_of (mesh_sessions ?e) (my_as \<lparr>my_as = 65002, hold_time = 90, bgp_identifier = ''9.9.9.9''\<rparr>) = Some 12 \<and>
      fsm_state (heap ?e 12) = STATE_ESTABLISHED"
    by (simp add: agent_in_state_sessions agent_in_state_heap example_session_fields
        read_open_example)
  have c: "map_of (sessions ?i) ''172.16.0.9'' = Some 11 \<and> is_passive (config (heap ?i 11))"
    by (simp add: agent_in_state_sessions agent_in_state_heap example_session_fields
        example_config_fields)
  from a established_rejects_unless_passive
    [where agent = ?e and addr = "''172.16.0.1''" and r = 10 and inet_aton = ipv4_int
      and decode = example_decode and incoming = 20 and arrivals = "example_arrivals 1 1 []"]
  have 1: "handle_incoming_connection ipv4_int example_decode ?e ''172.16.0.1'' 20 (example_arrivals 1 1 [])
     = (?e, [CloseWriter 20])"
    by blast
  from b established_rejects_unless_passive
    [where agent = ?e and addr = "''203.0.113.7''" and r = 12 and inet_aton = ipv4_int
      and decode = example_decode and incoming = 20
      and arrivals = "example_arrivals 1 1 (open_bytes 253 234)"
      and open_msg = "\<lparr>my_as = 65002, hold_time = 90, bgp_identifier = ''9.9.9.9''\<rparr>"]
  have 2: "snd (handle_incoming_connection ipv4_int example_decode ?e ''203.0.113.7'' 20
      (example_arrivals 1 1 (open_bytes 253 234))) = [ReadOpenMessage 30, CloseWriter 20]"
    by simp
  from c established_rejects_unless_passive
    [where agent = ?i and addr = "''172.16.0.9''" and r = 11 and inet_aton = ipv4_int
      and decode = example_decode and incoming = 20 and arrivals = "example_arrivals 1 1 []"]
  have 3: "handle_incoming_connection ipv4_int example_decode ?i ''172.16.0.9'' 20 (example_arrivals 1 1 [])
     = (?i, [AcceptConnection 11 20 False])"
    by blast
  from 1 2 3 show ?thesis by blast
qed

text \<open>
  Without the amendment the statement fails for a passive peer: its session is Established over
  connection 8, and the new connection 20 from its address is handed to the session.
\<close>

theorem established_passive_accepts_counterexample:
  "map_of (sessions (agent_in_state STATE_ESTABLISHED True)) ''172.16.0.9'' = Some 11 \<and>
   is_passive (config (heap (agent_in_state STATE_ESTABLISHED True) 11)) \<and>
   fsm_state (heap (agent_in_state STATE_ESTABLISHED True) 11) = STATE_ESTABLISHED \<and>
   writer (heap (agent_in_state STATE_ESTABLISHED True) 11) = Some 8 \<and>
   handle_incoming_connection ipv4_int example_decode (agent_in_state STATE_ESTABLISHED True)
       ''172.16.0.9'' 20 (example_arrivals 1 1 [])
     = (agent_in_state STATE_ESTABLISHED True, [AcceptConnection 11 20 False])"
  by (simp add: handle_incoming_connection_def dispatch_to_session_def agent_in_state_sessions
      agent_in_state_heap example_session_fields example_config_fields)



text \<open>
  The handler does not read the identifier of the peer. The agent 4.4.4.4 is in OpenSent
  with an active peer at 1.2.3.4, for which no router id is configured. The OPEN on the
  incoming connection carries the identifier 9.9.9.9, higher than the local one; the
  handler compares the local router id with the source address 1.2.3.4 and closes the
  incoming connection.
\<close>

lemma collision_source_address_example:
  "example_decode (map snd (example_arrivals 1 1 (open_bytes 253 232)))
     = Some \<lparr>my_as = 65000, hold_time = 90, bgp_identifier = ''9.9.9.9''\<rparr> \<and>
   ipv4_int ''9.9.9.9'' = Some 151587081 \<and>
   ipv4_int (agent_router_id low_address_agent) = Some 67372036 \<and>
   peer_router_id (config (heap low_address_agent 10)) = None \<and>
   handle_incoming_connection ipv4_int example_decode low_address_agent ''1.2.3.4'' 20
       (example_arrivals 1 1 (open_bytes 253 232))
     = (low_address_agent, [CloseWriter 20])"
proof -
  have b: "map snd (example_arrivals 1 1 (open_bytes 253 232)) = open_bytes 253 232"
    by (simp add: example_arrivals_def comp_def)
  have n: "ipv4_int ''9.9.9.9'' = Some 151587081" "ipv4_int ''1.2.3.4'' = Some 16909060"
    by (simp_all add: ipv4_int_def octet_value_def digit_value_def)
  have a: "map_of (sessions low_address_agent) ''1.2.3.4'' = Some 10"
    "agent_router_id low_address_agent = ''4.4.4.4''"
    "heap low_address_agent 10
       = example_session (active_config\<lparr>config_peer_ip := ''1.2.3.4''\<rparr>) STATE_OPENSENT (Some 7) []"
    by (simp_all add: low_address_agent_def example_agent_def)
  have c: "peer_router_id (active_config\<lparr>config_peer_ip := ''1.2.3.4''\<rparr>) = None"
    "\<not> is_passive (active_config\<lparr>config_peer_ip := ''1.2.3.4''\<rparr>)"
    "peer_router_id_or (active_config\<lparr>config_peer_ip := ''1.2.3.4''\<rparr>) ''1.2.3.4'' = ''1.2.3.4''"
    by (simp_all add: active_config_def peer_router_id_or_def py_not_str_def)
  have h: "handle_incoming_connection ipv4_int example_decode low_address_agent ''1.2.3.4'' 20
       (example_arrivals 1 1 (open_bytes 253 232)) = (low_address_agent, [CloseWriter 20])"
    by (simp add: handle_incoming_connection_def dispatch_to_session_def resolve_collision_def
        Let_def a c example_session_fields ipv4_int_local n)
  show ?thesis
    by (simp add: b decode_ok n a c example_session_fields ipv4_int_local h)
qed

text \<open>
  Without the amendment the statement fails: the header of an OPEN of AS 65002 arrives
  after 29 seconds and its body after 58 seconds, so that no OPEN has arrived within 30
  seconds, and the connection is handed to the mesh session with the OPEN stored.
\<close>

theorem mesh_identification_timeout_counterexample:
  "map_of (sessions (agent_in_state STATE_IDLE False)) ''203.0.113.7'' = None \<and>
   mesh_sessions (agent_in_state STATE_IDLE False) = [(65002, 12)] \<and>
   arrival_time 0 (example_arrivals 29 58 (open_bytes 253 234)) = 58 \<and>
   handle_incoming_connection ipv4_int example_decode (agent_in_state STATE_IDLE False)
       ''203.0.113.7'' 20 (example_arrivals 29 58 (open_bytes 253 234))
     = ((agent_in_state STATE_IDLE False)
          \<lparr>heap := (heap (agent_in_state STATE_IDLE False))
             (12 := (heap (agent_in_state STATE_IDLE False) 12)
                \<lparr>pending_open := Some \<lparr>my_as = 65002, hold_time = 90, bgp_identifier = ''9.9.9.9''\<rparr>\<rparr>)\<rparr>,
        [ReadOpenMessage 30, AcceptConnection 12 20 False])"
proof -
  let ?i = "agent_in_state STATE_IDLE False"
  have t: "arrival_time 0 (example_arrivals 29 58 (open_bytes 253 234)) = 58"
    by (simp only: arrival_time_example arrival_time_const) (simp add: open_bytes_parts)
  have r: "read_open_message example_decode (example_arrivals 29 58 (open_bytes 253 234)) 30
      = Some \<lparr>my_as = 65002, hold_time = 90, bgp_identifier = ''9.9.9.9''\<rparr>"
    by (simp add: read_open_example)
  have h: "handle_incoming_connection ipv4_int example_decode ?i ''203.0.113.7'' 20
       (example_arrivals 29 58 (open_bytes 253 234))
     = (?i\<lparr>heap := (heap ?i)(12 := (heap ?i 12)
          \<lparr>pending_open := Some \<lparr>my_as = 65002, hold_time = 90, bgp_identifier = ''9.9.9.9''\<rparr>\<rparr>)\<rparr>,
        [ReadOpenMessage 30, AcceptConnection 12 20 False])"
    by (simp add: handle_incoming_connection_def dispatch_to_session_def r agent_in_state_sessions
        agent_in_state_heap example_session_fields example_config_fields)
  show ?thesis
    unfolding h t by (simp add: agent_in_state_sessions)
qed

theorem mesh_identification_witness:
  "handle_incoming_connection ipv4_int example_decode (agent_in_state STATE_IDLE False)
       ''203.0.113.7'' 20 (example_arrivals 1 1 (open_bytes 253 234))
     = ((agent_in_state STATE_IDLE False)
          \<lparr>heap := (heap (agent_in_state STATE_IDLE False))
             (12 := (heap (agent_in_state STATE_IDLE False) 12)
                \<lparr>pending_open := Some \<lparr>my_as = 65002, hold_time = 90, bgp_identifier = ''9.9.9.9''\<rparr>\<rparr>)\<rparr>,
        [ReadOpenMessage 30, AcceptConnection 12 20 False]) \<and>
   handle_incoming_connection ipv4_int example_decode (agent_in_state STATE_IDLE False)
       ''203.0.113.7'' 20 (example_arrivals 1 1 (open_bytes 253 235))
     = (agent_in_state STATE_IDLE False, [ReadOpenMessage 30, CloseWriter 20]) \<and>
   handle_incoming_connection ipv4_int example_decode (agent_in_state STATE_IDLE False)
       ''203.0.113.7'' 20 (example_arrivals 1 1 [])
     = (agent_in_state STATE_IDLE False, [ReadOpenMessage 30, CloseWriter 20]) \<and>
   handle_incoming_connection ipv4_int example_decode (agent_in_state STATE_IDLE False)
       ''203.0.113.7'' 20 (example_arrivals 31 32 (open_bytes 253 234))
     = (agent_in_state STATE_IDLE False, [ReadOpenMessage 30, CloseWriter 20]) \<and>
   handle_incoming_connection ipv4_int example_decode (agent_in_state STATE_IDLE False)
       ''203.0.113.7'' 20 (example_arrivals 29 60 (open_bytes 253 234))
     = (agent_in_state STATE_IDLE False, [ReadOpenMessage 30, CloseWriter 20])"
proof -
  let ?i = "agent_in_state STATE_IDLE False"
  let ?o2 = "\<lparr>my_as = 65002, hold_time = 90, bgp_identifier = ''9.9.9.9''\<rparr>"
  let ?o3 = "\<lparr>my_as = 65003, hold_time = 90, bgp_identifier = ''9.9.9.9''\<rparr>"
  have h: "map_of (sessions ?i) ''203.0.113.7'' = None" "mesh_sessions ?i \<noteq> []"
    by (simp_all add: agent_in_state_sessions)
  have r2: "read_open_message example_decode (example_arrivals 1 1 (open_bytes 253 234)) 30 = Some ?o2"
    and r3: "read_open_message example_decode (example_arrivals 1 1 (open_bytes 253 235)) 30 = Some ?o3"
    and r4: "read_open_message example_decode (example_arrivals 31 32 (open_bytes 253 234)) 30 = None"
    and r5: "read_open_message example_decode (example_arrivals 29 60 (open_bytes 253 234)) 30 = None"
    by (simp_all add: read_open_example)
  have m: "map_of (mesh_sessions ?i) (my_as ?o2) = Some 12 \<and> fsm_state (heap ?i 12) \<noteq> STATE_ESTABLISHED"
    "map_of (mesh_sessions ?i) (my_as ?o3) = None"
    by (simp_all add: agent_in_state_sessions agent_in_state_heap example_session_fields)
  from mesh_identification [OF h, of example_decode "example_arrivals 1 1 (open_bytes 253 234)" ipv4_int 20 ?o2 12]
    r2 m(1)
  have 1: "handle_incoming_connection ipv4_int example_decode ?i ''203.0.113.7'' 20
       (example_arrivals 1 1 (open_bytes 253 234))
     = (?i\<lparr>heap := (heap ?i)(12 := (heap ?i 12)\<lparr>pending_open := Some ?o2\<rparr>)\<rparr>,
        [ReadOpenMessage 30, AcceptConnection 12 20 False])"
    by blast
  from mesh_identification [OF h, of example_decode "example_arrivals 1 1 (open_bytes 253 235)" ipv4_int 20 ?o3 12]
    r3 m(2)
  have 2: "handle_incoming_connection ipv4_int example_decode ?i ''203.0.113.7'' 20
       (example_arrivals 1 1 (open_bytes 253 235)) = (?i, [ReadOpenMessage 30, CloseWriter 20])"
    by blast
  from mesh_identification [OF h, of example_decode "example_arrivals 1 1 []" ipv4_int 20 ?o2 12]
    read_open_nothing [of 1 1]
  have 3: "handle_incoming_connection ipv4_int example_decode ?i ''203.0.113.7'' 20
       (example_arrivals 1 1 []) = (?i, [ReadOpenMessage 30, CloseWriter 20])"
    by blast
  from mesh_identification [OF h, of example_decode "example_arrivals 31 32 (open_bytes 253 234)" ipv4_int 20 ?o2 12]
    r4
  have 4: "handle_incoming_connection ipv4_int example_decode ?i ''203.0.113.7'' 20
       (example_arrivals 31 32 (open_bytes 253 234)) = (?i, [ReadOpenMessage 30, CloseWriter 20])"
    by blast
  from mesh_identification [OF h, of example_decode "example_arrivals 29 60 (open_bytes 253 234)" ipv4_int 20 ?o2 12]
    r5
  have 5: "handle_incoming_connection ipv4_int example_decode ?i ''203.0.113.7'' 20
       (example_arrivals 29 60 (open_bytes 253 234)) = (?i, [ReadOpenMessage 30, CloseWriter 20])"
    by blast
  from 1 2 3 4 5 show ?thesis by blast
qed

section \<open>The decision process on a re-advertised prefix\<close>

text \<open>
  What one step of the cycle leaves in the Loc-RIB for its prefix: the best route when there
  was no entry or the entry was learned from another peer, and the entry in place otherwise.
\<close>

lemma map_of_alist_update: "map_of (alist_update k v kvs) k = Some v"
  by (induction kvs) auto

lemma loc_rib_kernel_install: "loc_rib (kernel_install agent pfx best_route) = loc_rib agent"
  by (simp add: kernel_install_def split: option.splits)

lemma decide_prefix_lookup:
  assumes "collect_candidates agent pfx \<noteq> []"
    and "select_best ip_int (best_path_selector agent) (collect_candidates agent pfx) = Some best_route"
    and "prefix best_route = pfx"
  shows "loc_rib_lookup (loc_rib (fst (decide_prefix ip_int pfx (agent, changed)))) pfx =
     (case loc_rib_lookup (loc_rib agent) pfx of
        None \<Rightarrow> Some best_route
      | Some current_best \<Rightarrow>
          if peer_id current_best \<noteq> peer_id best_route then Some best_route
          else Some current_best)"
  using assms
  by (simp add: decide_prefix_def Let_def loc_rib_kernel_install loc_rib_install_route_def
      loc_rib_lookup_def map_of_alist_update split: option.splits)

lemma first_advertisement_fields:
  "sessions first_advertisement = [(''172.16.0.1'', 10), (''172.16.0.9'', 11), (''mesh-as65002'', 12)]"
  "heap first_advertisement 10
     = example_session active_config STATE_ESTABLISHED (Some 7) [(''10.0.0.0/8'', route_old)]"
  "heap first_advertisement 11 = example_session passive_config STATE_ESTABLISHED (Some 8) []"
  "heap first_advertisement 12 = example_session mesh_config STATE_ESTABLISHED (Some 9) []"
  "loc_rib first_advertisement = []"
  "kernel_route_manager first_advertisement = None"
  "apply_import_policy first_advertisement = (\<lambda>route peer. Some route)"
  "igp_cost_lookup (best_path_selector first_advertisement) = None"
  by (simp_all add: first_advertisement_def receive_update_def agent_in_state_def example_agent_def
      example_heap_def example_session_def route_old_def)

lemma session_values_first:
  "session_values first_advertisement =
     [example_session active_config STATE_ESTABLISHED (Some 7) [(''10.0.0.0/8'', route_old)],
      example_session passive_config STATE_ESTABLISHED (Some 8) [],
      example_session mesh_config STATE_ESTABLISHED (Some 9) []]"
  by (simp add: session_values_def first_advertisement_fields)

lemma all_prefixes_first: "all_prefixes first_advertisement = [''10.0.0.0/8'']"
  by (simp add: all_prefixes_def session_values_first is_established_def example_session_fields
      adj_rib_in_get_prefixes_def)

lemma candidates_first: "collect_candidates first_advertisement ''10.0.0.0/8'' = [route_old]"
  by (simp add: collect_candidates_def session_values_first is_established_def
      example_session_fields adj_rib_in_get_routes_def first_advertisement_fields
      List.map_filter_simps)

lemma first_cycle:
  "run_decision_process ipv4_int first_advertisement
     = (first_advertisement\<lparr>loc_rib := [(''10.0.0.0/8'', route_old)]\<rparr>, [''10.0.0.0/8''])"
  by (simp add: run_decision_process_def all_prefixes_first decide_prefix_def candidates_first
      select_best_def loc_rib_lookup_def loc_rib_install_route_def first_advertisement_fields
      kernel_install_def route_old_def Let_def)

lemma second_advertisement_fields:
  "sessions second_advertisement = [(''172.16.0.1'', 10), (''172.16.0.9'', 11), (''mesh-as65002'', 12)]"
  "heap second_advertisement 10
     = example_session active_config STATE_ESTABLISHED (Some 7) [(''10.0.0.0/8'', route_new)]"
  "heap second_advertisement 11 = example_session passive_config STATE_ESTABLISHED (Some 8) []"
  "heap second_advertisement 12 = example_session mesh_config STATE_ESTABLISHED (Some 9) []"
  "loc_rib second_advertisement = [(''10.0.0.0/8'', route_old)]"
  "kernel_route_manager second_advertisement = None"
  "apply_import_policy second_advertisement = (\<lambda>route peer. Some route)"
  by (simp_all add: second_advertisement_def first_cycle receive_update_def
      first_advertisement_fields)
    (simp_all add: example_session_def route_new_def route_old_def)

lemma session_values_second:
  "session_values second_advertisement =
     [example_session active_config STATE_ESTABLISHED (Some 7) [(''10.0.0.0/8'', route_new)],
      example_session passive_config STATE_ESTABLISHED (Some 8) [],
      example_session mesh_config STATE_ESTABLISHED (Some 9) []]"
  by (simp add: session_values_def second_advertisement_fields)

lemma all_prefixes_second: "all_prefixes second_advertisement = [''10.0.0.0/8'']"
  by (simp add: all_prefixes_def session_values_second is_established_def example_session_fields
      adj_rib_in_get_prefixes_def)

lemma candidates_second: "collect_candidates second_advertisement ''10.0.0.0/8'' = [route_new]"
  by (simp add: collect_candidates_def session_values_second is_established_def
      example_session_fields adj_rib_in_get_routes_def second_advertisement_fields
      List.map_filter_simps)

text \<open>
  Claim C1 fails on the code. After the first cycle the Loc-RIB holds \<open>route_old\<close>. The
  same peer then advertises the prefix with LOCAL_PREF 200; the only candidate of the next
  cycle, and so the output of the selector, is \<open>route_new\<close>, but the cycle installs a
  route only when the peer of the best route differs from the peer of the route in place,
  and the Loc-RIB keeps \<open>route_old\<close>.
\<close>

theorem stale_loc_rib_after_readvertisement:
  "loc_rib (fst (run_decision_process ipv4_int first_advertisement)) = [(''10.0.0.0/8'', route_old)] \<and>
   collect_candidates second_advertisement ''10.0.0.0/8'' = [route_new] \<and>
   select_best ipv4_int (best_path_selector second_advertisement)
     (collect_candidates second_advertisement ''10.0.0.0/8'') = Some route_new \<and>
   loc_rib_lookup (loc_rib (fst (run_decision_process ipv4_int second_advertisement))) ''10.0.0.0/8''
     = Some route_old \<and>
   attr_local_pref route_old = Some 100 \<and> attr_local_pref route_new = Some 200 \<and>
   peer_id route_new = peer_id route_old"
proof -
  have 1: "loc_rib (fst (run_decision_process ipv4_int first_advertisement))
      = [(''10.0.0.0/8'', route_old)]"
    by (simp add: first_cycle)
  have 2: "select_best ipv4_int (best_path_selector second_advertisement) [route_new] = Some route_new"
    by (simp add: select_best_def)
  have p: "peer_id route_new = peer_id route_old"
    by (simp add: route_new_def)
  have 3: "run_decision_process ipv4_int second_advertisement = (second_advertisement, [])"
    by (simp add: run_decision_process_def all_prefixes_second decide_prefix_def candidates_second
        2 loc_rib_lookup_def second_advertisement_fields p Let_def)
  have 4: "attr_local_pref route_old = Some 100" "attr_local_pref route_new = Some 200"
    by (simp_all add: route_old_def route_new_def)
  show ?thesis
    by (simp add: 1 2 3 4 p candidates_second loc_rib_lookup_def second_advertisement_fields)
qed


end
